theory Spec2Isabelle
  imports Main "HOL-Library.Word" "HOL-Library.Monad_Syntax"
begin

unbundle bit_operations_syntax

section \<open>The oat file assistant (runtime/oat\_file\_assistant.cc)\<close>

text \<open>
  The assistant decides whether an ahead-of-time compiled oat file for a dex location is
  still fresh, which of the two candidate files (the odex file beside the dex file, the oat
  file in the dalvik cache) is the one to use, and regenerates it with dex2oat.

  The embedding follows the source function by function. The fields of the C++ objects are
  record fields under their own names, a member's trailing underscore written \<open>_m\<close>
  (\<open>status_\<close> is \<open>status_m\<close>), every lazily computed field with its "attempted" flag.
  A member function that mutates the assistant takes the assistant and returns the result
  paired with the updated assistant. A failed \<open>CHECK\<close> aborts the process: the
  function then returns \<open>None\<close>. The disk is an explicit store from paths to inodes, read by
  the file readers and written by the regeneration pipeline.
\<close>

subsection \<open>Enumerations\<close>

datatype OatStatus =
    kOatCannotOpen
  | kOatDexOutOfDate
  | kOatBootImageOutOfDate
  | kOatRelocationOutOfDate
  | kOatUpToDate

datatype DexOptNeeded =
    kNoDexOptNeeded
  | kDex2OatFromScratch
  | kDex2OatForBootImage
  | kDex2OatForFilter
  | kDex2OatForRelocation

datatype ResultOfAttemptToUpdate =
    kUpdateFailed
  | kUpdateNotAttempted
  | kUpdateSucceeded

text \<open>The two \<open>OatFileInfo\<close> members of the assistant, \<open>odex_\<close> and \<open>oat_\<close>.\<close>

datatype InfoRef = Odex | Oat

subsection \<open>The disk\<close>

type_synonym mode_t = "32 word"

datatype inode = Directory mode_t | Regular mode_t "8 word list"

type_synonym disk = "string \<rightharpoonup> inode"

datatype errno = ENOENT | EACCES | ENOTDIR

subsection \<open>Files read by the assistant\<close>

text \<open>
  A vdex file: its header's number of dex files is the length of the list, and
  \<open>GetLocationChecksum(i)\<close> is the element at index \<open>i\<close>.
\<close>

record VdexFile =
  vdex_checksums :: "32 word list"

text \<open>
  An opened oat file, as far as the assistant reads it. \<open>oat_dex_files\<close> has one entry for
  every index below the header's \<open>GetDexFileCount()\<close>: what \<open>GetOatDexFile\<close> finds for
  the multidex location of that index (\<open>None\<close> for a null result, else the entry's
  \<open>GetDexFileLocationChecksum()\<close>). The addresses are the values of \<open>uintptr_t\<close>, the patch
  delta the value of an \<open>int32_t\<close>; the code only compares them for equality.
\<close>

record 'f OatFile =
  IsConcurrentCopying :: bool
  oat_dex_files :: "32 word option list"
  GetVdexFile :: VdexFile
  GetCompilerFilter :: 'f
  GetImageFileLocationOatChecksum :: "32 word"
  GetImageFileLocationOatDataBegin :: nat
  GetImagePatchDelta :: int
  IsPic :: bool
  IsExecutable :: bool

record ImageInfo =
  location :: string
  oat_checksum :: "32 word"
  oat_data_begin :: nat
  patch_delta :: int

text \<open>The header of an image file, as far as \<open>GetRuntimeImageInfo\<close> reads it.\<close>

record ImageHeader =
  GetOatChecksum :: "32 word"
  GetOatDataBegin :: nat
  GetPatchDelta :: int

subsection \<open>What the source takes from outside this file\<close>

text \<open>
  Build constants, the \<open>CompilerFilter\<close> predicates, the runtime's options, the readers
  of dex, oat, vdex and image files, the subprocess and the outcome of the system calls whose
  result the source tests are parameters, collected in one record. The compiler filter type
  \<open>'f\<close> is a parameter as well. The instruction set is the ordinal of its enumerator.
  \<open>DexOptNeeded_value\<close> gives the integer value of each \<open>DexOptNeeded\<close> enumerator, which
  the header declares. \<open>unlink\<close>, whose result the source ignores, removes the path.
\<close>

record 'f env =
  kUseReadBarrier :: bool
  kIsVdexEnabled :: bool
  kIsDebugBuild :: bool
  kIsTargetBuild :: bool
  kDefaultCompilerFilterForDexLoading :: 'f
  kSpecialSharedLibrary :: string
  DependsOnImageChecksum :: "'f \<Rightarrow> bool"
  IsAotCompilationEnabled :: "'f \<Rightarrow> bool"
  DependsOnProfile :: "'f \<Rightarrow> bool"
  IsAsGoodAs :: "'f \<Rightarrow> 'f \<Rightarrow> bool"
  NameOfFilter :: "'f \<Rightarrow> string"
  ParseCompilerFilter :: "string \<Rightarrow> 'f option"
  GetInstructionSetString :: "nat \<Rightarrow> string"
  GetVdexFilename :: "string \<Rightarrow> string"
  to_string :: "int \<Rightarrow> string"
  IsDex2OatEnabled :: bool
  GetCompilerOptions :: "string list"
  GetCompilerExecutable :: string
  GetClassPathString :: string
  IsJavaDebuggable :: bool
  RuntimeFeaturesAsDex2OatArguments :: "string list"
  IsVerificationEnabled :: bool
  MustRelocateIfPossible :: bool
  BootImageSpaceLocations :: "string list"
  GetMultiDexChecksums :: "disk \<Rightarrow> string \<Rightarrow> 32 word list option"
  GetImageLocation :: string
  ReadImageHeader :: "disk \<Rightarrow> string \<Rightarrow> nat \<Rightarrow> ImageHeader option"
  OatFile_Open :: "disk \<Rightarrow> string \<Rightarrow> bool \<Rightarrow> string \<Rightarrow> 'f OatFile option"
  VdexFile_Open :: "disk \<Rightarrow> string \<Rightarrow> VdexFile option"
  Exec :: "string list \<Rightarrow> disk \<Rightarrow> bool \<times> disk"
  umask :: mode_t
  stat_failure :: "string \<Rightarrow> errno option"
  mkdir_failure :: "string \<Rightarrow> bool"
  chmod_failure :: "string \<Rightarrow> bool"
  open_failure :: "string \<Rightarrow> bool"
  open_fd :: "string \<Rightarrow> int"
  fchmod_failure :: "string \<Rightarrow> bool"
  flush_close_failure :: "string \<Rightarrow> bool"
  DexOptNeeded_value :: "DexOptNeeded \<Rightarrow> int"

subsection \<open>The assistant's state\<close>

record 'f OatFileInfo =
  is_oat_location_m :: bool
  filename_provided_m :: bool
  filename_m :: string
  load_attempted_m :: bool
  file_m :: "'f OatFile option"
  status_attempted_m :: bool
  status_m :: OatStatus
  file_released_m :: bool

record 'f OatFileAssistant =
  dex_location_m :: string
  isa_m :: nat
  load_executable_m :: bool
  dex_parent_writable_m :: bool
  required_dex_checksums_attempted_m :: bool
  required_dex_checksums_found_m :: bool
  cached_required_dex_checksums_m :: "32 word list"
  has_original_dex_files_m :: bool
  image_info_load_attempted_m :: bool
  cached_image_info_m :: "ImageInfo option"
  odex_m :: "'f OatFileInfo"
  oat_m :: "'f OatFileInfo"

definition info :: "InfoRef \<Rightarrow> 'f OatFileAssistant \<Rightarrow> 'f OatFileInfo" where
  "info r a = (case r of Odex \<Rightarrow> odex_m a | Oat \<Rightarrow> oat_m a)"

definition set_info ::
  "InfoRef \<Rightarrow> 'f OatFileInfo \<Rightarrow> 'f OatFileAssistant \<Rightarrow> 'f OatFileAssistant" where
  "set_info r i a = (case r of Odex \<Rightarrow> a\<lparr>odex_m := i\<rparr> | Oat \<Rightarrow> a\<lparr>oat_m := i\<rparr>)"

type_synonym ('f, 'x) op = "'f OatFileAssistant \<Rightarrow> ('x \<times> 'f OatFileAssistant) option"

subsection \<open>Lazily loaded fields\<close>

text \<open>\<open>OatFileInfo::GetFile\<close>. The \<open>CHECK\<close> on \<open>file_released_\<close> is the \<open>None\<close> branch.\<close>

definition OatFileInfo_GetFile ::
  "'f env \<Rightarrow> disk \<Rightarrow> InfoRef \<Rightarrow> ('f, 'f OatFile option) op" where
  "OatFileInfo_GetFile env d r a =
     (if file_released_m (info r a) then None
      else if \<not> load_attempted_m (info r a) then
        (let i1 = (info r a)\<lparr>load_attempted_m := True\<rparr>;
             i2 = (if filename_provided_m i1
                   then i1\<lparr>file_m := OatFile_Open env d (filename_m i1)
                                        (load_executable_m a) (dex_location_m a)\<rparr>
                   else i1)
         in Some (file_m i2, set_info r i2 a))
      else Some (file_m (info r a), a))"

text \<open>
  The loop of \<open>GetRequiredDexChecksums\<close> over the dex files of the odex file: it appends
  each checksum and breaks, with \<open>required_dex_checksums_found_ = false\<close>, at the first
  missing entry. \<open>DexFile::GetMultiDexChecksums\<close> is taken to fill the cleared vector
  when it succeeds and to leave it empty when it fails.
\<close>

fun GetRequiredDexChecksums_loop ::
  "32 word option list \<Rightarrow> 32 word list \<Rightarrow> bool \<times> 32 word list" where
  "GetRequiredDexChecksums_loop [] cached = (True, cached)"
| "GetRequiredDexChecksums_loop (None # es) cached = (False, cached)"
| "GetRequiredDexChecksums_loop (Some c # es) cached =
     GetRequiredDexChecksums_loop es (cached @ [c])"

definition required_dex_checksums_result :: "'f OatFileAssistant \<Rightarrow> 32 word list option" where
  "required_dex_checksums_result a =
     (if required_dex_checksums_found_m a then Some (cached_required_dex_checksums_m a)
      else None)"

definition GetRequiredDexChecksums ::
  "'f env \<Rightarrow> disk \<Rightarrow> ('f, 32 word list option) op" where
  "GetRequiredDexChecksums env d a =
     (if \<not> required_dex_checksums_attempted_m a then
        (let a1 = a\<lparr>required_dex_checksums_attempted_m := True,
                     required_dex_checksums_found_m := False,
                     cached_required_dex_checksums_m := []\<rparr>
         in case GetMultiDexChecksums env d (dex_location_m a1) of
              Some cs \<Rightarrow>
                (let a2 = a1\<lparr>cached_required_dex_checksums_m := cs,
                              required_dex_checksums_found_m := True,
                              has_original_dex_files_m := True\<rparr>
                 in Some (required_dex_checksums_result a2, a2))
            | None \<Rightarrow>
                do {
                  (odex_file, a3) \<leftarrow>
                    OatFileInfo_GetFile env d Odex (a1\<lparr>has_original_dex_files_m := False\<rparr>);
                  let a4 = (case odex_file of
                              None \<Rightarrow> a3
                            | Some f \<Rightarrow>
                                (let (found, cs) =
                                       GetRequiredDexChecksums_loop (oat_dex_files f)
                                         (cached_required_dex_checksums_m a3)
                                 in a3\<lparr>required_dex_checksums_found_m := found,
                                        cached_required_dex_checksums_m := cs\<rparr>));
                  Some (required_dex_checksums_result a4, a4)
                })
      else Some (required_dex_checksums_result a, a))"

definition HasOriginalDexFiles :: "'f env \<Rightarrow> disk \<Rightarrow> ('f, bool) op" where
  "HasOriginalDexFiles env d a =
     do {
       (required, a1) \<leftarrow> GetRequiredDexChecksums env d a;
       Some (has_original_dex_files_m a1, a1)
     }"

definition GetRuntimeImageInfo :: "'f env \<Rightarrow> disk \<Rightarrow> nat \<Rightarrow> ImageInfo option" where
  "GetRuntimeImageInfo env d isa =
     (case ReadImageHeader env d (GetImageLocation env) isa of
        None \<Rightarrow> None
      | Some image_header \<Rightarrow>
          Some \<lparr>location = GetImageLocation env,
                oat_checksum = GetOatChecksum image_header,
                oat_data_begin = GetOatDataBegin image_header,
                patch_delta = GetPatchDelta image_header\<rparr>)"

text \<open>\<open>GetImageInfo\<close> has no fatal check: it always returns.\<close>

definition GetImageInfo ::
  "'f env \<Rightarrow> disk \<Rightarrow> 'f OatFileAssistant \<Rightarrow> ImageInfo option \<times> 'f OatFileAssistant" where
  "GetImageInfo env d a =
     (if \<not> image_info_load_attempted_m a then
        (let a1 = a\<lparr>image_info_load_attempted_m := True,
                     cached_image_info_m := GetRuntimeImageInfo env d (isa_m a)\<rparr>
         in (cached_image_info_m a1, a1))
      else (cached_image_info_m a, a))"

subsection \<open>Checksum comparison\<close>

text \<open>
  The index loops of the two \<open>DexChecksumUpToDate\<close> overloads. They run after the count
  check, so every index read is below the length of both lists.
\<close>

function DexChecksumUpToDate_vdex_loop ::
  "nat \<Rightarrow> nat \<Rightarrow> 32 word list \<Rightarrow> 32 word list \<Rightarrow> bool" where
  "DexChecksumUpToDate_vdex_loop i number_of_dex_files required actual =
     (if i < number_of_dex_files then
        (if required ! i \<noteq> actual ! i then False
         else DexChecksumUpToDate_vdex_loop (Suc i) number_of_dex_files required actual)
      else True)"
  by pat_completeness auto
termination
  by (relation "measure (\<lambda>(i, n, required, actual). n - i)") auto

function DexChecksumUpToDate_oat_loop ::
  "nat \<Rightarrow> nat \<Rightarrow> 32 word list \<Rightarrow> 32 word option list \<Rightarrow> bool" where
  "DexChecksumUpToDate_oat_loop i number_of_dex_files required entries =
     (if i < number_of_dex_files then
        (case entries ! i of
           None \<Rightarrow> False
         | Some actual_checksum \<Rightarrow>
             (if required ! i \<noteq> actual_checksum then False
              else DexChecksumUpToDate_oat_loop (Suc i) number_of_dex_files required entries))
      else True)"
  by pat_completeness auto
termination
  by (relation "measure (\<lambda>(i, n, required, entries). n - i)") auto

definition DexChecksumUpToDate_vdex ::
  "'f env \<Rightarrow> disk \<Rightarrow> VdexFile \<Rightarrow> ('f, bool) op" where
  "DexChecksumUpToDate_vdex env d vdex a =
     do {
       (required_dex_checksums, a1) \<leftarrow> GetRequiredDexChecksums env d a;
       (case required_dex_checksums of
          None \<Rightarrow> Some (True, a1)
        | Some required \<Rightarrow>
            (let number_of_dex_files = length (vdex_checksums vdex)
             in if length required \<noteq> number_of_dex_files then Some (False, a1)
                else Some (DexChecksumUpToDate_vdex_loop 0 number_of_dex_files required
                             (vdex_checksums vdex), a1)))
     }"

definition DexChecksumUpToDate_oat ::
  "'f env \<Rightarrow> disk \<Rightarrow> 'f OatFile \<Rightarrow> ('f, bool) op" where
  "DexChecksumUpToDate_oat env d f a =
     do {
       (required_dex_checksums, a1) \<leftarrow> GetRequiredDexChecksums env d a;
       (case required_dex_checksums of
          None \<Rightarrow> Some (True, a1)
        | Some required \<Rightarrow>
            (let number_of_dex_files = length (oat_dex_files f)
             in if length required \<noteq> number_of_dex_files then Some (False, a1)
                else Some (DexChecksumUpToDate_oat_loop 0 number_of_dex_files required
                             (oat_dex_files f), a1)))
     }"

subsection \<open>Freshness of an opened oat file\<close>

text \<open>
  \<open>GivenOatFileStatus\<close>, block by block. The block that verifies the image checksum
  either returns \<open>kOatBootImageOutOfDate\<close> (the result \<open>Some kOatBootImageOutOfDate\<close>) or
  falls through (\<open>None\<close>) to the relocation block, which ends the function.
\<close>

definition GivenOatFileStatus_image_checksum ::
  "'f env \<Rightarrow> disk \<Rightarrow> 'f OatFile \<Rightarrow> ('f, OatStatus option) op" where
  "GivenOatFileStatus_image_checksum env d f a =
     (if DependsOnImageChecksum env (GetCompilerFilter f) then
        (let (image_info, a1) = GetImageInfo env d a
         in case image_info of
              None \<Rightarrow>
                do {
                  (has_dex, a2) \<leftarrow> HasOriginalDexFiles env d a1;
                  Some (if has_dex then Some kOatBootImageOutOfDate else None, a2)
                }
            | Some ii \<Rightarrow>
                Some (if GetImageFileLocationOatChecksum f \<noteq> oat_checksum ii
                      then Some kOatBootImageOutOfDate else None, a1))
      else Some (None, a))"

definition GivenOatFileStatus_relocation ::
  "'f env \<Rightarrow> disk \<Rightarrow> 'f OatFile \<Rightarrow> 'f OatFileAssistant \<Rightarrow> OatStatus \<times> 'f OatFileAssistant" where
  "GivenOatFileStatus_relocation env d f a =
     (if IsAotCompilationEnabled env (GetCompilerFilter f) then
        (if \<not> IsPic f then
           (let (image_info, a1) = GetImageInfo env d a
            in case image_info of
                 None \<Rightarrow> (kOatRelocationOutOfDate, a1)
               | Some ii \<Rightarrow>
                   (if GetImageFileLocationOatDataBegin f \<noteq> oat_data_begin ii
                    then (kOatRelocationOutOfDate, a1)
                    else if GetImagePatchDelta f \<noteq> patch_delta ii
                    then (kOatRelocationOutOfDate, a1)
                    else (kOatUpToDate, a1)))
         else (kOatUpToDate, a))
      else (kOatUpToDate, a))"

definition GivenOatFileStatus ::
  "'f env \<Rightarrow> disk \<Rightarrow> 'f OatFile \<Rightarrow> ('f, OatStatus) op" where
  "GivenOatFileStatus env d f a =
     (if IsConcurrentCopying f \<noteq> kUseReadBarrier env then Some (kOatCannotOpen, a)
      else do {
        (up_to_date, a1) \<leftarrow>
          (if kIsVdexEnabled env then DexChecksumUpToDate_vdex env d (GetVdexFile f) a
           else DexChecksumUpToDate_oat env d f a);
        if \<not> up_to_date then Some (kOatDexOutOfDate, a1)
        else do {
          (image_checksum, a2) \<leftarrow> GivenOatFileStatus_image_checksum env d f a1;
          (case image_checksum of
             Some st \<Rightarrow> Some (st, a2)
           | None \<Rightarrow> Some (GivenOatFileStatus_relocation env d f a2))
        }
      })"

subsection \<open>Status of a candidate\<close>

definition set_status ::
  "InfoRef \<Rightarrow> OatStatus \<Rightarrow> 'f OatFileAssistant \<Rightarrow> 'f OatFileAssistant" where
  "set_status r st a = set_info r ((info r a)\<lparr>status_m := st\<rparr>) a"

definition OatFileInfo_Status :: "'f env \<Rightarrow> disk \<Rightarrow> InfoRef \<Rightarrow> ('f, OatStatus) op" where
  "OatFileInfo_Status env d r a =
     (if \<not> status_attempted_m (info r a) then
        do {
          let a1 = set_info r ((info r a)\<lparr>status_attempted_m := True\<rparr>) a;
          (f, a2) \<leftarrow> OatFileInfo_GetFile env d r a1;
          a5 \<leftarrow>
            (case f of
               None \<Rightarrow>
                 (case VdexFile_Open env d (GetVdexFilename env (filename_m (info r a2))) of
                    None \<Rightarrow> Some (set_status r kOatCannotOpen a2)
                  | Some vdex \<Rightarrow>
                      do {
                        (up_to_date, a3) \<leftarrow> DexChecksumUpToDate_vdex env d vdex a2;
                        Some (set_status r (if up_to_date then kOatBootImageOutOfDate
                                            else kOatDexOutOfDate) a3)
                      })
             | Some file \<Rightarrow>
                 do {
                   (st, a3) \<leftarrow> GivenOatFileStatus env d file a2;
                   Some (set_status r st a3)
                 });
          Some (status_m (info r a5), a5)
        }
      else Some (status_m (info r a), a))"

definition OatFileInfo_IsUseable :: "'f env \<Rightarrow> disk \<Rightarrow> InfoRef \<Rightarrow> ('f, bool) op" where
  "OatFileInfo_IsUseable env d r a =
     do {
       (st, a1) \<leftarrow> OatFileInfo_Status env d r a;
       Some (case st of
               kOatCannotOpen \<Rightarrow> False
             | kOatDexOutOfDate \<Rightarrow> False
             | kOatBootImageOutOfDate \<Rightarrow> False
             | kOatRelocationOutOfDate \<Rightarrow> True
             | kOatUpToDate \<Rightarrow> True, a1)
     }"

definition OdexFileStatus :: "'f env \<Rightarrow> disk \<Rightarrow> ('f, OatStatus) op" where
  "OdexFileStatus env d a = OatFileInfo_Status env d Odex a"

definition OatFileStatus :: "'f env \<Rightarrow> disk \<Rightarrow> ('f, OatStatus) op" where
  "OatFileStatus env d a = OatFileInfo_Status env d Oat a"

subsection \<open>The regeneration decision\<close>

definition OatFileInfo_CompilerFilterIsOkay ::
  "'f env \<Rightarrow> disk \<Rightarrow> InfoRef \<Rightarrow> 'f \<Rightarrow> bool \<Rightarrow> ('f, bool) op" where
  "OatFileInfo_CompilerFilterIsOkay env d r target profile_changed a =
     do {
       (f, a1) \<leftarrow> OatFileInfo_GetFile env d r a;
       (case f of
          None \<Rightarrow> Some (False, a1)
        | Some file \<Rightarrow>
            (let current = GetCompilerFilter file
             in if profile_changed \<and> DependsOnProfile env current then Some (False, a1)
                else Some (IsAsGoodAs env current target, a1)))
     }"

text \<open>
  The condition \<open>c && Status() == st\<close>: C++ evaluates \<open>Status()\<close> only when \<open>c\<close> holds.
\<close>

definition and_Status_is ::
  "'f env \<Rightarrow> disk \<Rightarrow> InfoRef \<Rightarrow> bool \<Rightarrow> OatStatus \<Rightarrow> ('f, bool) op" where
  "and_Status_is env d r c st a =
     (if c then do { (s, a1) \<leftarrow> OatFileInfo_Status env d r a; Some (s = st, a1) }
      else Some (False, a))"

definition OatFileInfo_GetDexOptNeeded ::
  "'f env \<Rightarrow> disk \<Rightarrow> InfoRef \<Rightarrow> 'f \<Rightarrow> bool \<Rightarrow> ('f, DexOptNeeded) op" where
  "OatFileInfo_GetDexOptNeeded env d r target profile_changed a =
     do {
       let compilation_desired = IsAotCompilationEnabled env target;
       (filter_okay, a1) \<leftarrow> OatFileInfo_CompilerFilterIsOkay env d r target profile_changed a;
       (c1, a2) \<leftarrow> and_Status_is env d r filter_okay kOatUpToDate a1;
       if c1 then Some (kNoDexOptNeeded, a2)
       else do {
         (c2, a3) \<leftarrow>
           and_Status_is env d r (filter_okay \<and> \<not> compilation_desired)
             kOatRelocationOutOfDate a2;
         if c2 then Some (kNoDexOptNeeded, a3)
         else do {
           (c3, a4) \<leftarrow> and_Status_is env d r filter_okay kOatRelocationOutOfDate a3;
           if c3 then Some (kDex2OatForRelocation, a4)
           else do {
             (useable, a5) \<leftarrow> OatFileInfo_IsUseable env d r a4;
             if useable then Some (kDex2OatForFilter, a5)
             else do {
               (st, a6) \<leftarrow> OatFileInfo_Status env d r a5;
               if st = kOatBootImageOutOfDate then Some (kDex2OatForBootImage, a6)
               else do {
                 (has_dex, a7) \<leftarrow> HasOriginalDexFiles env d a6;
                 if has_dex then Some (kDex2OatFromScratch, a7)
                 else Some (kNoDexOptNeeded, a7)
               }
             }
           }
         }
       }
     }"

subsection \<open>Selecting the best candidate\<close>

text \<open>\<open>GetBestInfo\<close> returns a reference to \<open>odex_\<close> or to \<open>oat_\<close>.\<close>

definition GetBestInfo :: "'f env \<Rightarrow> disk \<Rightarrow> ('f, InfoRef) op" where
  "GetBestInfo env d a =
     (if dex_parent_writable_m a then Some (Odex, a)
      else do {
        (oat_useable, a1) \<leftarrow> OatFileInfo_IsUseable env d Oat a;
        if oat_useable then Some (Oat, a1)
        else do {
          (odex_status, a2) \<leftarrow> OatFileInfo_Status env d Odex a1;
          if odex_status = kOatUpToDate then Some (Odex, a2)
          else do {
            (has_dex, a3) \<leftarrow> HasOriginalDexFiles env d a2;
            if has_dex then Some (Oat, a3)
            else do {
              (odex_status', a4) \<leftarrow> OatFileInfo_Status env d Odex a3;
              Some (if odex_status' = kOatCannotOpen then Oat else Odex, a4)
            }
          }
        }
      })"

definition GetDexOptNeeded :: "'f env \<Rightarrow> disk \<Rightarrow> 'f \<Rightarrow> bool \<Rightarrow> ('f, int) op" where
  "GetDexOptNeeded env d target profile_changed a =
     do {
       (r, a1) \<leftarrow> GetBestInfo env d a;
       (dexopt_needed, a2) \<leftarrow> OatFileInfo_GetDexOptNeeded env d r target profile_changed a1;
       if is_oat_location_m (info r a2) \<or> dexopt_needed = kDex2OatFromScratch
       then Some (DexOptNeeded_value env dexopt_needed, a2)
       else Some (- DexOptNeeded_value env dexopt_needed, a2)
     }"

definition IsUpToDate :: "'f env \<Rightarrow> disk \<Rightarrow> ('f, bool) op" where
  "IsUpToDate env d a =
     do {
       (r, a1) \<leftarrow> GetBestInfo env d a;
       (st, a2) \<leftarrow> OatFileInfo_Status env d r a1;
       Some (st = kOatUpToDate, a2)
     }"

subsection \<open>Releasing the file for use\<close>

definition OatFileInfo_IsExecutable :: "'f env \<Rightarrow> disk \<Rightarrow> InfoRef \<Rightarrow> ('f, bool) op" where
  "OatFileInfo_IsExecutable env d r a =
     do {
       (f, a1) \<leftarrow> OatFileInfo_GetFile env d r a;
       Some (case f of None \<Rightarrow> False | Some file \<Rightarrow> IsExecutable file, a1)
     }"

definition OatFileInfo_Reset :: "InfoRef \<Rightarrow> 'f OatFileAssistant \<Rightarrow> 'f OatFileAssistant" where
  "OatFileInfo_Reset r a =
     set_info r ((info r a)\<lparr>load_attempted_m := False, file_m := None,
                             status_attempted_m := False\<rparr>) a"

text \<open>\<open>ReleaseFile\<close> moves the file out of \<open>file_\<close>, which is null afterwards.\<close>

definition OatFileInfo_ReleaseFile ::
  "InfoRef \<Rightarrow> 'f OatFileAssistant \<Rightarrow> 'f OatFile option \<times> 'f OatFileAssistant" where
  "OatFileInfo_ReleaseFile r a =
     (file_m (info r a),
      set_info r ((info r a)\<lparr>file_released_m := True, file_m := None\<rparr>) a)"

definition OatFileInfo_ReleaseFileForUse ::
  "'f env \<Rightarrow> disk \<Rightarrow> InfoRef \<Rightarrow> ('f, 'f OatFile option) op" where
  "OatFileInfo_ReleaseFileForUse env d r a =
     do {
       (st, a1) \<leftarrow> OatFileInfo_Status env d r a;
       if st = kOatUpToDate then Some (OatFileInfo_ReleaseFile r a1)
       else do {
         (st2, a2) \<leftarrow> OatFileInfo_Status env d r a1;
         (relocation_not_executable, a3) \<leftarrow>
           (if st2 = kOatRelocationOutOfDate
            then do { (ex, a3) \<leftarrow> OatFileInfo_IsExecutable env d r a2; Some (\<not> ex, a3) }
            else Some (False, a2));
         if relocation_not_executable then Some (OatFileInfo_ReleaseFile r a3)
         else do {
           (st3, a4) \<leftarrow> OatFileInfo_Status env d r a3;
           if st3 = kOatRelocationOutOfDate then
             do {
               let a5 = OatFileInfo_Reset r (a4\<lparr>load_executable_m := False\<rparr>);
               (useable, a6) \<leftarrow> OatFileInfo_IsUseable env d r a5;
               if useable then
                 do {
                   (ex, a7) \<leftarrow> OatFileInfo_IsExecutable env d r a6;
                   if ex then None else Some (OatFileInfo_ReleaseFile r a7)
                 }
               else Some (None, a6)
             }
           else Some (None, a4)
         }
       }
     }"

definition GetBestOatFile :: "'f env \<Rightarrow> disk \<Rightarrow> ('f, 'f OatFile option) op" where
  "GetBestOatFile env d a =
     do {
       (r, a1) \<leftarrow> GetBestInfo env d a;
       OatFileInfo_ReleaseFileForUse env d r a1
     }"

subsection \<open>System calls on the disk\<close>

definition S_IRWXU :: mode_t where "S_IRWXU = 448"
definition S_IRUSR :: mode_t where "S_IRUSR = 256"
definition S_IWUSR :: mode_t where "S_IWUSR = 128"
definition S_IRGRP :: mode_t where "S_IRGRP = 32"
definition S_IXGRP :: mode_t where "S_IXGRP = 8"
definition S_IROTH :: mode_t where "S_IROTH = 4"
definition S_IXOTH :: mode_t where "S_IXOTH = 1"

fun st_mode :: "inode \<Rightarrow> mode_t" where
  "st_mode (Directory m) = m"
| "st_mode (Regular m c) = m"

fun S_ISDIR :: "inode \<Rightarrow> bool" where
  "S_ISDIR (Directory m) = True"
| "S_ISDIR (Regular m c) = False"

fun set_mode :: "mode_t \<Rightarrow> inode \<Rightarrow> inode" where
  "set_mode m (Directory m0) = Directory m"
| "set_mode m (Regular m0 c) = Regular m c"

definition stat :: "'f env \<Rightarrow> disk \<Rightarrow> string \<Rightarrow> errno + inode" where
  "stat env d path =
     (case stat_failure env path of
        Some e \<Rightarrow> Inl e
      | None \<Rightarrow> (case d path of None \<Rightarrow> Inl ENOENT | Some n \<Rightarrow> Inr n))"

definition mkdir :: "'f env \<Rightarrow> string \<Rightarrow> mode_t \<Rightarrow> disk \<Rightarrow> disk option" where
  "mkdir env path m d =
     (if mkdir_failure env path \<or> d path \<noteq> None then None
      else Some (d(path \<mapsto> Directory (m AND NOT (umask env)))))"

definition chmod :: "'f env \<Rightarrow> string \<Rightarrow> mode_t \<Rightarrow> disk \<Rightarrow> disk option" where
  "chmod env path m d =
     (if chmod_failure env path then None
      else (case d path of None \<Rightarrow> None | Some n \<Rightarrow> Some (d(path \<mapsto> set_mode m n))))"

definition unlink :: "string \<Rightarrow> disk \<Rightarrow> disk" where
  "unlink path d = d(path := None)"

text \<open>
  An open \<open>File\<close>: its path and its descriptor. What the destructor of a \<open>File\<close>
  that is still open does is not part of this source file and is left out.
\<close>

record File =
  GetPath :: string
  Fd :: int

text \<open>\<open>OS::CreateEmptyFile\<close> opens the path with \<open>O_CREAT | O_TRUNC\<close> and mode 0666.\<close>

definition CreateEmptyFile :: "'f env \<Rightarrow> string \<Rightarrow> disk \<Rightarrow> File option \<times> disk" where
  "CreateEmptyFile env name d =
     (if open_failure env name then (None, d)
      else (case d name of
              Some (Directory m) \<Rightarrow> (None, d)
            | Some (Regular m c) \<Rightarrow>
                (Some \<lparr>GetPath = name, Fd = open_fd env name\<rparr>, d(name \<mapsto> Regular m []))
            | None \<Rightarrow>
                (Some \<lparr>GetPath = name, Fd = open_fd env name\<rparr>,
                 d(name \<mapsto> Regular (438 AND NOT (umask env)) []))))"

definition fchmod :: "'f env \<Rightarrow> File \<Rightarrow> mode_t \<Rightarrow> disk \<Rightarrow> disk option" where
  "fchmod env f m d =
     (if fchmod_failure env (GetPath f) then None
      else (case d (GetPath f) of
              None \<Rightarrow> Some d
            | Some n \<Rightarrow> Some (d(GetPath f \<mapsto> set_mode m n))))"

text \<open>\<open>File::Erase\<close> truncates the file to length 0 and closes it.\<close>

definition Erase :: "File \<Rightarrow> disk \<Rightarrow> disk" where
  "Erase f d =
     (case d (GetPath f) of
        Some (Regular m c) \<Rightarrow> d(GetPath f \<mapsto> Regular m [])
      | _ \<Rightarrow> d)"

text \<open>\<open>File::FlushCloseOrErase\<close>: the first component says whether the result is 0.\<close>

definition FlushCloseOrErase :: "'f env \<Rightarrow> File \<Rightarrow> disk \<Rightarrow> bool \<times> disk" where
  "FlushCloseOrErase env f d =
     (if flush_close_failure env (GetPath f) then (False, Erase f d) else (True, d))"

subsection \<open>File names\<close>

text \<open>\<open>std::string::rfind\<close> of a character: the index of its last occurrence.\<close>

fun rfind_loop :: "string \<Rightarrow> char \<Rightarrow> nat \<Rightarrow> nat option \<Rightarrow> nat option" where
  "rfind_loop [] c i found = found"
| "rfind_loop (x # xs) c i found = rfind_loop xs c (Suc i) (if x = c then Some i else found)"

definition rfind :: "string \<Rightarrow> char \<Rightarrow> nat option" where
  "rfind s c = rfind_loop s c 0 None"

text \<open>
  \<open>DexLocationToOdexNames\<close>: the odex file name, the oat directory and the isa directory, or
  \<open>None\<close> where the source returns false.
\<close>

definition DexLocationToOdexNames ::
  "'f env \<Rightarrow> string \<Rightarrow> nat \<Rightarrow> (string \<times> string \<times> string) option" where
  "DexLocationToOdexNames env dex_loc isa =
     (case rfind dex_loc CHR ''/'' of
        None \<Rightarrow> None
      | Some pos \<Rightarrow>
          (let oat_dir = take (pos + 1) dex_loc @ ''oat'';
               isa_dir = oat_dir @ ''/'' @ GetInstructionSetString env isa;
               file = drop (pos + 1) dex_loc
           in case rfind file CHR ''.'' of
                None \<Rightarrow> None
              | Some pos' \<Rightarrow>
                  (let base = take pos' file
                   in Some (isa_dir @ ''/'' @ base @ ''.odex'', oat_dir, isa_dir))))"

definition DexLocationToOdexFilename :: "'f env \<Rightarrow> string \<Rightarrow> nat \<Rightarrow> string option" where
  "DexLocationToOdexFilename env dex_loc isa =
     map_option fst (DexLocationToOdexNames env dex_loc isa)"

definition PrepareDirectory :: "'f env \<Rightarrow> string \<Rightarrow> disk \<Rightarrow> bool \<times> disk" where
  "PrepareDirectory env dir d =
     (case stat env d dir of
        Inr dir_stat \<Rightarrow> (if \<not> S_ISDIR dir_stat then (False, d) else (True, d))
      | Inl e \<Rightarrow>
          (if e \<noteq> ENOENT then (False, d)
           else (let m = S_IRWXU OR S_IXGRP OR S_IXOTH
                 in case mkdir env dir m d of
                      None \<Rightarrow> (False, d)
                    | Some d1 \<Rightarrow>
                        (case chmod env dir m d1 of
                           None \<Rightarrow> (False, d1)
                         | Some d2 \<Rightarrow> (True, d2)))))"

text \<open>
  \<open>PrepareOdexDirectories\<close>. The \<open>DCHECK_EQ\<close> on the odex location aborts a debug build:
  that is the result \<open>None\<close>.
\<close>

definition PrepareOdexDirectories ::
  "'f env \<Rightarrow> string \<Rightarrow> string \<Rightarrow> nat \<Rightarrow> disk \<Rightarrow> (bool \<times> disk) option" where
  "PrepareOdexDirectories env dex_location expected_odex_location isa d =
     (case DexLocationToOdexNames env dex_location isa of
        None \<Rightarrow> Some (False, d)
      | Some (actual_odex_location, oat_dir, isa_dir) \<Rightarrow>
          (if kIsDebugBuild env \<and> expected_odex_location \<noteq> actual_odex_location then None
           else (case PrepareDirectory env oat_dir d of
                   (False, d1) \<Rightarrow> Some (False, d1)
                 | (True, d1) \<Rightarrow>
                     (case PrepareDirectory env isa_dir d1 of
                        (False, d2) \<Rightarrow> Some (False, d2)
                      | (True, d2) \<Rightarrow> Some (True, d2)))))"

subsection \<open>Regeneration\<close>

definition ImageLocation :: "'f env \<Rightarrow> string" where
  "ImageLocation env =
     (case BootImageSpaceLocations env of [] \<Rightarrow> [] | l # ls \<Rightarrow> l)"

definition Dex2Oat :: "'f env \<Rightarrow> string list \<Rightarrow> disk \<Rightarrow> bool \<times> disk" where
  "Dex2Oat env args d =
     (let image_location = ImageLocation env
      in if image_location = [] then (False, d)
         else
           (let class_path = (if GetClassPathString env = [] then kSpecialSharedLibrary env
                              else GetClassPathString env);
                argv = [GetCompilerExecutable env, ''--runtime-arg'', ''-classpath'',
                        ''--runtime-arg'', class_path]
                       @ (if IsJavaDebuggable env then [''--debuggable''] else [])
                       @ RuntimeFeaturesAsDex2OatArguments env
                       @ (if \<not> IsVerificationEnabled env then [''--compiler-filter=verify-none'']
                          else [])
                       @ (if MustRelocateIfPossible env then [''--runtime-arg'', ''-Xrelocate'']
                          else [''--runtime-arg'', ''-Xnorelocate''])
                       @ (if \<not> kIsTargetBuild env then [''--host''] else [])
                       @ [''--boot-image='' @ image_location]
                       @ GetCompilerOptions env
                       @ args
            in Exec env argv d))"

text \<open>
  \<open>GenerateOatFileNoChecks\<close> returns its result code together with the disk it leaves.
\<close>

definition GenerateOatFileNoChecks ::
  "'f env \<Rightarrow> disk \<Rightarrow> InfoRef \<Rightarrow> 'f \<Rightarrow> ('f, ResultOfAttemptToUpdate \<times> disk) op" where
  "GenerateOatFileNoChecks env d r filter' a =
     (if \<not> IsDex2OatEnabled env then Some ((kUpdateNotAttempted, d), a)
      else if \<not> filename_provided_m (info r a) then Some ((kUpdateNotAttempted, d), a)
      else
        (let oat_file_name = filename_m (info r a);
             vdex_file_name = GetVdexFilename env oat_file_name
         in case stat env d (dex_location_m a) of
              Inl e \<Rightarrow> Some ((kUpdateNotAttempted, d), a)
            | Inr dex_path_stat \<Rightarrow>
                (case (if \<not> is_oat_location_m (info r a)
                       then PrepareOdexDirectories env (dex_location_m a) oat_file_name
                              (isa_m a) d
                       else Some (True, d)) of
                   None \<Rightarrow> None
                 | Some (False, d1) \<Rightarrow> Some ((kUpdateNotAttempted, d1), a)
                 | Some (True, d1) \<Rightarrow>
                     (let file_mode = S_IRUSR OR S_IWUSR OR (st_mode dex_path_stat AND S_IRGRP)
                                      OR (st_mode dex_path_stat AND S_IROTH)
                      in case CreateEmptyFile env vdex_file_name d1 of
                           (None, d2) \<Rightarrow> Some ((kUpdateNotAttempted, d2), a)
                         | (Some vdex_file, d2) \<Rightarrow>
                       (case fchmod env vdex_file file_mode d2 of
                          None \<Rightarrow> Some ((kUpdateNotAttempted, d2), a)
                        | Some d3 \<Rightarrow>
                       (case CreateEmptyFile env oat_file_name d3 of
                          (None, d4) \<Rightarrow> Some ((kUpdateNotAttempted, d4), a)
                        | (Some oat_file, d4) \<Rightarrow>
                       (case fchmod env oat_file file_mode d4 of
                          None \<Rightarrow> Some ((kUpdateNotAttempted, Erase oat_file d4), a)
                        | Some d5 \<Rightarrow>
                       (let args = [''--dex-file='' @ dex_location_m a,
                                    ''--output-vdex-fd='' @ to_string env (Fd vdex_file),
                                    ''--oat-fd='' @ to_string env (Fd oat_file),
                                    ''--oat-location='' @ oat_file_name,
                                    ''--compiler-filter='' @ NameOfFilter env filter']
                        in case Dex2Oat env args d5 of
                             (False, d6) \<Rightarrow>
                               Some ((kUpdateFailed,
                                      unlink oat_file_name (Erase oat_file
                                        (unlink vdex_file_name (Erase vdex_file d6)))), a)
                           | (True, d6) \<Rightarrow>
                       (case FlushCloseOrErase env vdex_file d6 of
                          (False, d7) \<Rightarrow> Some ((kUpdateFailed, unlink vdex_file_name d7), a)
                        | (True, d7) \<Rightarrow>
                       (case FlushCloseOrErase env oat_file d7 of
                          (False, d8) \<Rightarrow> Some ((kUpdateFailed, unlink oat_file_name d8), a)
                        | (True, d8) \<Rightarrow>
                            Some ((kUpdateSucceeded, d8), OatFileInfo_Reset r a)))))))))))"

definition starts_with :: "string \<Rightarrow> string \<Rightarrow> bool" where
  "starts_with s p = (take (length p) s = p)"

text \<open>
  The loop of \<open>GetRuntimeCompilerFilterOption\<close> over the runtime's compiler options;
  \<open>None\<close> where the source returns false.
\<close>

fun GetRuntimeCompilerFilterOption_loop :: "'f env \<Rightarrow> string list \<Rightarrow> 'f \<Rightarrow> 'f option" where
  "GetRuntimeCompilerFilterOption_loop env [] filter' = Some filter'"
| "GetRuntimeCompilerFilterOption_loop env (option # options) filter' =
     (if starts_with option ''--compiler-filter='' then
        (case ParseCompilerFilter env (drop (length ''--compiler-filter='') option) of
           None \<Rightarrow> None
         | Some parsed \<Rightarrow> GetRuntimeCompilerFilterOption_loop env options parsed)
      else GetRuntimeCompilerFilterOption_loop env options filter')"

definition GetRuntimeCompilerFilterOption :: "'f env \<Rightarrow> 'f option" where
  "GetRuntimeCompilerFilterOption env =
     GetRuntimeCompilerFilterOption_loop env (GetCompilerOptions env)
       (kDefaultCompilerFilterForDexLoading env)"

definition MakeUpToDate ::
  "'f env \<Rightarrow> disk \<Rightarrow> bool \<Rightarrow> ('f, ResultOfAttemptToUpdate \<times> disk) op" where
  "MakeUpToDate env d profile_changed a =
     (case GetRuntimeCompilerFilterOption env of
        None \<Rightarrow> Some ((kUpdateNotAttempted, d), a)
      | Some target \<Rightarrow>
          do {
            (r, a1) \<leftarrow> GetBestInfo env d a;
            (dexopt_needed, a2) \<leftarrow>
              OatFileInfo_GetDexOptNeeded env d r target profile_changed a1;
            (case dexopt_needed of
               kNoDexOptNeeded \<Rightarrow> Some ((kUpdateSucceeded, d), a2)
             | kDex2OatFromScratch \<Rightarrow> GenerateOatFileNoChecks env d r target a2
             | kDex2OatForBootImage \<Rightarrow> GenerateOatFileNoChecks env d r target a2
             | kDex2OatForRelocation \<Rightarrow> GenerateOatFileNoChecks env d r target a2
             | kDex2OatForFilter \<Rightarrow> GenerateOatFileNoChecks env d r target a2)
          })"

section \<open>What the specification says\<close>

text \<open>
  The decision tables below are written from the specification's sentences, over plain
  values: the candidate's header, the required checksums (if any), the boot image info (if
  any), and whether the original dex files are available. The theorems relate them to the
  functions above.
\<close>

text \<open>
  The candidate's per-unit checksum list: the vdex file's when vdex is enabled, else the oat
  file's own table, where an entry can be missing.
\<close>

definition candidate_checksums :: "'f env \<Rightarrow> 'f OatFile \<Rightarrow> 32 word option list" where
  "candidate_checksums env f =
     (if kIsVdexEnabled env then map Some (vdex_checksums (GetVdexFile f))
      else oat_dex_files f)"

text \<open>
  "Count mismatch or any index mismatch." Without required checksums there are no two
  lists to compare, and nothing differs.
\<close>

definition checksums_differ :: "32 word list option \<Rightarrow> 32 word option list \<Rightarrow> bool" where
  "checksums_differ required candidate =
     (case required of
        None \<Rightarrow> False
      | Some rs \<Rightarrow>
          length rs \<noteq> length candidate
          \<or> (\<exists>i < length candidate. candidate ! i \<noteq> Some (rs ! i)))"

text \<open>The boot-image gate rejects the candidate.\<close>

definition boot_image_gate_rejects ::
  "'f env \<Rightarrow> 'f OatFile \<Rightarrow> ImageInfo option \<Rightarrow> bool \<Rightarrow> bool" where
  "boot_image_gate_rejects env f image_info has_dex =
     (DependsOnImageChecksum env (GetCompilerFilter f)
      \<and> (case image_info of
            None \<Rightarrow> has_dex
          | Some ii \<Rightarrow> GetImageFileLocationOatChecksum f \<noteq> oat_checksum ii))"

text \<open>The relocation gate finds that the candidate needs relocation.\<close>

definition relocation_gate_rejects :: "'f env \<Rightarrow> 'f OatFile \<Rightarrow> ImageInfo option \<Rightarrow> bool" where
  "relocation_gate_rejects env f image_info =
     (IsAotCompilationEnabled env (GetCompilerFilter f) \<and> \<not> IsPic f
      \<and> (case image_info of
            None \<Rightarrow> True
          | Some ii \<Rightarrow>
              GetImageFileLocationOatDataBegin f \<noteq> oat_data_begin ii
              \<or> GetImagePatchDelta f \<noteq> patch_delta ii))"

definition freshness_spec ::
  "'f env \<Rightarrow> 'f OatFile \<Rightarrow> 32 word list option \<Rightarrow> ImageInfo option \<Rightarrow> bool \<Rightarrow> OatStatus" where
  "freshness_spec env f required image_info has_dex =
     (if IsConcurrentCopying f \<noteq> kUseReadBarrier env then kOatCannotOpen
      else if checksums_differ required (candidate_checksums env f) then kOatDexOutOfDate
      else if boot_image_gate_rejects env f image_info has_dex then kOatBootImageOutOfDate
      else if relocation_gate_rejects env f image_info then kOatRelocationOutOfDate
      else kOatUpToDate)"

text \<open>The fallback to the vdex file when the oat file cannot be opened.\<close>

definition vdex_only_spec :: "VdexFile option \<Rightarrow> 32 word list option \<Rightarrow> OatStatus" where
  "vdex_only_spec vdex required =
     (case vdex of
        None \<Rightarrow> kOatCannotOpen
      | Some v \<Rightarrow>
          (if checksums_differ required (map Some (vdex_checksums v)) then kOatDexOutOfDate
           else kOatBootImageOutOfDate))"

definition usable :: "OatStatus \<Rightarrow> bool" where
  "usable st = (st = kOatRelocationOutOfDate \<or> st = kOatUpToDate)"

text \<open>
  "Filter-ok": the candidate's filter is at least as capable as the target, and not (profile
  changed and the candidate's filter depends on the profile). A candidate without an oat
  file has no filter that could be okay.
\<close>

definition filter_ok_spec :: "'f env \<Rightarrow> 'f OatFile option \<Rightarrow> 'f \<Rightarrow> bool \<Rightarrow> bool" where
  "filter_ok_spec env candidate target profile_changed =
     (case candidate of
        None \<Rightarrow> False
      | Some f \<Rightarrow>
          IsAsGoodAs env (GetCompilerFilter f) target
          \<and> \<not> (profile_changed \<and> DependsOnProfile env (GetCompilerFilter f)))"

definition dexopt_needed_spec :: "bool \<Rightarrow> bool \<Rightarrow> OatStatus \<Rightarrow> bool \<Rightarrow> DexOptNeeded" where
  "dexopt_needed_spec filter_ok compilation_desired st has_dex =
     (if filter_ok \<and> st = kOatUpToDate then kNoDexOptNeeded
      else if filter_ok \<and> \<not> compilation_desired \<and> st = kOatRelocationOutOfDate
        then kNoDexOptNeeded
      else if filter_ok \<and> st = kOatRelocationOutOfDate then kDex2OatForRelocation
      else if usable st then kDex2OatForFilter
      else if st = kOatBootImageOutOfDate then kDex2OatForBootImage
      else if has_dex then kDex2OatFromScratch
      else kNoDexOptNeeded)"

definition best_info_spec :: "bool \<Rightarrow> OatStatus \<Rightarrow> OatStatus \<Rightarrow> bool \<Rightarrow> InfoRef" where
  "best_info_spec odex_dir_writable oat_status odex_status has_dex =
     (if odex_dir_writable then Odex
      else if usable oat_status then Oat
      else if odex_status = kOatUpToDate then Odex
      else if has_dex then Oat
      else if odex_status = kOatCannotOpen then Oat
      else Odex)"

section \<open>The values behind the lazy fields\<close>

text \<open>
  What each lazily computed field holds once it is computed, as a function of the assistant
  and the disk: the cached value if there is one, else the value the getter would compute.
  The lemmas show that every getter returns this value and leaves all of these values as
  they were, so that the order of the queries does not matter.
\<close>

definition file_value :: "'f env \<Rightarrow> disk \<Rightarrow> InfoRef \<Rightarrow> 'f OatFileAssistant \<Rightarrow> 'f OatFile option" where
  "file_value env d r a =
     (if load_attempted_m (info r a) then file_m (info r a)
      else if filename_provided_m (info r a)
        then OatFile_Open env d (filename_m (info r a)) (load_executable_m a) (dex_location_m a)
      else file_m (info r a))"

text \<open>The three fields \<open>GetRequiredDexChecksums\<close> computes: found, checksums, has original.\<close>

definition required_value ::
  "'f env \<Rightarrow> disk \<Rightarrow> 'f OatFileAssistant \<Rightarrow> bool \<times> 32 word list \<times> bool" where
  "required_value env d a =
     (if required_dex_checksums_attempted_m a
      then (required_dex_checksums_found_m a, cached_required_dex_checksums_m a,
            has_original_dex_files_m a)
      else (case GetMultiDexChecksums env d (dex_location_m a) of
              Some cs \<Rightarrow> (True, cs, True)
            | None \<Rightarrow>
                (case file_value env d Odex a of
                   None \<Rightarrow> (False, [], False)
                 | Some f \<Rightarrow>
                     (fst (GetRequiredDexChecksums_loop (oat_dex_files f) []),
                      snd (GetRequiredDexChecksums_loop (oat_dex_files f) []), False))))"

definition required_checksums_value ::
  "'f env \<Rightarrow> disk \<Rightarrow> 'f OatFileAssistant \<Rightarrow> 32 word list option" where
  "required_checksums_value env d a =
     (if fst (required_value env d a) then Some (fst (snd (required_value env d a)))
      else None)"

definition has_dex_value :: "'f env \<Rightarrow> disk \<Rightarrow> 'f OatFileAssistant \<Rightarrow> bool" where
  "has_dex_value env d a = snd (snd (required_value env d a))"

definition image_value :: "'f env \<Rightarrow> disk \<Rightarrow> 'f OatFileAssistant \<Rightarrow> ImageInfo option" where
  "image_value env d a =
     (if image_info_load_attempted_m a then cached_image_info_m a
      else GetRuntimeImageInfo env d (isa_m a))"

definition status_value :: "'f env \<Rightarrow> disk \<Rightarrow> InfoRef \<Rightarrow> 'f OatFileAssistant \<Rightarrow> OatStatus" where
  "status_value env d r a =
     (if status_attempted_m (info r a) then status_m (info r a)
      else (case file_value env d r a of
              None \<Rightarrow>
                vdex_only_spec (VdexFile_Open env d (GetVdexFilename env (filename_m (info r a))))
                  (required_checksums_value env d a)
            | Some f \<Rightarrow>
                freshness_spec env f (required_checksums_value env d a) (image_value env d a)
                  (has_dex_value env d a)))"

text \<open>The fields no query changes.\<close>

definition fixed_fields ::
  "'f OatFileInfo \<Rightarrow> bool \<times> bool \<times> string \<times> bool" where
  "fixed_fields i = (is_oat_location_m i, filename_provided_m i, filename_m i, file_released_m i)"

definition frame ::
  "'f OatFileAssistant \<Rightarrow>
     string \<times> nat \<times> bool \<times> bool \<times> (bool \<times> bool \<times> string \<times> bool) \<times> (bool \<times> bool \<times> string \<times> bool)" where
  "frame a = (dex_location_m a, isa_m a, load_executable_m a, dex_parent_writable_m a,
              fixed_fields (odex_m a), fixed_fields (oat_m a))"

definition raw_status :: "'f OatFileAssistant \<Rightarrow> bool \<times> OatStatus \<times> bool \<times> OatStatus" where
  "raw_status a = (status_attempted_m (odex_m a), status_m (odex_m a),
                   status_attempted_m (oat_m a), status_m (oat_m a))"

text \<open>The cache fields as they are stored.\<close>

definition caches where
  "caches a = (required_dex_checksums_attempted_m a, required_dex_checksums_found_m a,
               cached_required_dex_checksums_m a, has_original_dex_files_m a,
               image_info_load_attempted_m a, cached_image_info_m a)"

definition base where
  "base env d a =
     (file_value env d Odex a, file_value env d Oat a, required_value env d a,
      image_value env d a, frame a)"

definition view where
  "view env d a = (base env d a, status_value env d Odex a, status_value env d Oat a)"

text \<open>No file has been released: the state in which no query hits a fatal check.\<close>

definition safe :: "'f OatFileAssistant \<Rightarrow> bool" where
  "safe a = (\<not> file_released_m (odex_m a) \<and> \<not> file_released_m (oat_m a))"

text \<open>A load that was attempted stays attempted.\<close>

definition loaded_mono :: "'f OatFileAssistant \<Rightarrow> 'f OatFileAssistant \<Rightarrow> bool" where
  "loaded_mono a a' =
     ((load_attempted_m (odex_m a) \<longrightarrow> load_attempted_m (odex_m a'))
      \<and> (load_attempted_m (oat_m a) \<longrightarrow> load_attempted_m (oat_m a')))"

text \<open>
  A status is computed only after the load of the file was attempted: an invariant of the
  assistant, which holds when it is constructed and which every query keeps.
\<close>

definition status_after_load :: "'f OatFileAssistant \<Rightarrow> bool" where
  "status_after_load a =
     ((status_attempted_m (odex_m a) \<longrightarrow> load_attempted_m (odex_m a))
      \<and> (status_attempted_m (oat_m a) \<longrightarrow> load_attempted_m (oat_m a)))"

text \<open>A call returns \<open>x\<close>: it hits no fatal check and its result is \<open>x\<close>.\<close>

definition returns :: "('x \<times> 's) option \<Rightarrow> 'x \<Rightarrow> bool" where
  "returns m x = (case m of None \<Rightarrow> False | Some (y, s) \<Rightarrow> y = x)"

section \<open>A sample installation\<close>

text \<open>
  Concrete inputs on which the theorems are instantiated. Compiler filters are numbered
  0 (verify-none), 1 (interpret-only), 2 (speed-profile), 3 (speed), 4 (everything). A
  regular file is readable by its reader when it is not empty; an oat file whose first byte
  is 2 was compiled against another load address of the boot image. The \<open>DexOptNeeded\<close>
  enumerators are numbered from 0 in the order of their declaration.
\<close>

definition sample_oat_file :: "bool \<Rightarrow> bool \<Rightarrow> nat OatFile" where
  "sample_oat_file other_base executable =
     \<lparr>IsConcurrentCopying = False,
      oat_dex_files = [Some 0xABCD],
      GetVdexFile = \<lparr>vdex_checksums = [0xABCD]\<rparr>,
      GetCompilerFilter = 3,
      GetImageFileLocationOatChecksum = 0x1111,
      GetImageFileLocationOatDataBegin = (if other_base then 0x60000000 else 0x70000000),
      GetImagePatchDelta = 0,
      IsPic = False,
      IsExecutable = executable\<rparr>"

definition sample_env :: "nat env" where
  "sample_env =
     \<lparr>kUseReadBarrier = False,
      kIsVdexEnabled = True,
      kIsDebugBuild = False,
      kIsTargetBuild = True,
      kDefaultCompilerFilterForDexLoading = 1,
      kSpecialSharedLibrary = ''&'',
      DependsOnImageChecksum = (\<lambda>f. 1 \<le> f),
      IsAotCompilationEnabled = (\<lambda>f. 3 \<le> f),
      DependsOnProfile = (\<lambda>f. f = 2),
      IsAsGoodAs = (\<lambda>current target. target \<le> current),
      NameOfFilter = (\<lambda>f. if f = 0 then ''verify-none'' else if f = 1 then ''interpret-only''
                           else if f = 2 then ''speed-profile'' else if f = 3 then ''speed''
                           else ''everything''),
      ParseCompilerFilter = (\<lambda>s. if s = ''verify-none'' then Some 0
                                 else if s = ''interpret-only'' then Some 1
                                 else if s = ''speed-profile'' then Some 2
                                 else if s = ''speed'' then Some 3
                                 else if s = ''everything'' then Some 4
                                 else None),
      GetInstructionSetString = (\<lambda>isa. ''arm''),
      GetVdexFilename = (\<lambda>p. case rfind p CHR ''.'' of
                                 None \<Rightarrow> p @ ''.vdex''
                               | Some i \<Rightarrow> take i p @ ''.vdex''),
      to_string = (\<lambda>fd. if fd = 3 then ''3'' else ''4''),
      IsDex2OatEnabled = True,
      GetCompilerOptions = [''--compiler-filter=everything''],
      GetCompilerExecutable = ''/bin/dex2oat'',
      GetClassPathString = [],
      IsJavaDebuggable = False,
      RuntimeFeaturesAsDex2OatArguments = [],
      IsVerificationEnabled = True,
      MustRelocateIfPossible = True,
      BootImageSpaceLocations = [''/boot.art''],
      GetMultiDexChecksums = (\<lambda>d p. case d p of
                                        Some (Regular m (b # bs)) \<Rightarrow> Some [0xABCD]
                                      | _ \<Rightarrow> None),
      GetImageLocation = ''/boot.art'',
      ReadImageHeader = (\<lambda>d l isa. case d l of
                                       Some (Regular m (b # bs)) \<Rightarrow>
                                         Some \<lparr>GetOatChecksum = 0x1111,
                                               GetOatDataBegin = 0x70000000,
                                               GetPatchDelta = 0\<rparr>
                                     | _ \<Rightarrow> None),
      OatFile_Open = (\<lambda>d p executable l. case d p of
                          Some (Regular m (b # bs)) \<Rightarrow> Some (sample_oat_file (b = 2) executable)
                        | _ \<Rightarrow> None),
      VdexFile_Open = (\<lambda>d p. case d p of
                                 Some (Regular m (b # bs)) \<Rightarrow> Some \<lparr>vdex_checksums = [0xABCD]\<rparr>
                               | _ \<Rightarrow> None),
      Exec = (\<lambda>argv d. (True, d)),
      umask = 18,
      stat_failure = (\<lambda>p. None),
      mkdir_failure = (\<lambda>p. False),
      chmod_failure = (\<lambda>p. False),
      open_failure = (\<lambda>p. False),
      open_fd = (\<lambda>p. if p = ''/c/b.vdex'' then 3 else 4),
      fchmod_failure = (\<lambda>p. False),
      flush_close_failure = (\<lambda>p. p = ''/c/b.vdex''),
      DexOptNeeded_value = (\<lambda>n. case n of
                                   kNoDexOptNeeded \<Rightarrow> 0
                                 | kDex2OatFromScratch \<Rightarrow> 1
                                 | kDex2OatForBootImage \<Rightarrow> 2
                                 | kDex2OatForFilter \<Rightarrow> 3
                                 | kDex2OatForRelocation \<Rightarrow> 4)\<rparr>"

text \<open>An assistant as its constructor leaves it, the dex file's directory not writable.\<close>

definition sample_info :: "bool \<Rightarrow> string \<Rightarrow> nat OatFileInfo" where
  "sample_info is_oat name =
     \<lparr>is_oat_location_m = is_oat,
      filename_provided_m = True,
      filename_m = name,
      load_attempted_m = False,
      file_m = None,
      status_attempted_m = False,
      status_m = kOatCannotOpen,
      file_released_m = False\<rparr>"

definition sample_assistant :: "nat OatFileAssistant" where
  "sample_assistant =
     \<lparr>dex_location_m = ''/a/b.apk'',
      isa_m = 1,
      load_executable_m = True,
      dex_parent_writable_m = False,
      required_dex_checksums_attempted_m = False,
      required_dex_checksums_found_m = False,
      cached_required_dex_checksums_m = [],
      has_original_dex_files_m = False,
      image_info_load_attempted_m = False,
      cached_image_info_m = None,
      odex_m = sample_info False ''/a/oat/arm/b.odex'',
      oat_m = sample_info True ''/c/b.dex''\<rparr>"

text \<open>
  The dex file and the boot image are on the disk; \<open>sample_disk\<close> also has a fresh oat
  file with its vdex file in the cache, \<open>relocation_disk\<close> has one compiled against another
  load address, \<open>vdex_only_disk\<close> has nothing but a vdex file beside the dex file, and
  \<open>stripped_disk\<close> is \<open>vdex_only_disk\<close> with the dex code stripped from the dex file.
  \<open>no_image_disk\<close> has the stripped dex file, no boot image and the fresh oat file beside
  the dex file.
\<close>

definition sample_disk :: disk where
  "sample_disk =
     [''/a/b.apk'' \<mapsto> Regular 420 [1], ''/boot.art'' \<mapsto> Regular 420 [1],
      ''/c/b.dex'' \<mapsto> Regular 420 [1], ''/c/b.vdex'' \<mapsto> Regular 420 [1]]"

definition relocation_disk :: disk where
  "relocation_disk =
     [''/a/b.apk'' \<mapsto> Regular 420 [1], ''/boot.art'' \<mapsto> Regular 420 [1],
      ''/c/b.dex'' \<mapsto> Regular 420 [2], ''/c/b.vdex'' \<mapsto> Regular 420 [1]]"

definition vdex_only_disk :: disk where
  "vdex_only_disk =
     [''/a/b.apk'' \<mapsto> Regular 420 [1], ''/boot.art'' \<mapsto> Regular 420 [1],
      ''/a/oat/arm/b.vdex'' \<mapsto> Regular 420 [1]]"

definition stripped_disk :: disk where
  "stripped_disk =
     [''/a/b.apk'' \<mapsto> Regular 420 [], ''/boot.art'' \<mapsto> Regular 420 [1],
      ''/a/oat/arm/b.vdex'' \<mapsto> Regular 420 [1]]"

definition no_image_disk :: disk where
  "no_image_disk =
     [''/a/b.apk'' \<mapsto> Regular 420 [],
      ''/a/oat/arm/b.odex'' \<mapsto> Regular 420 [1], ''/a/oat/arm/b.vdex'' \<mapsto> Regular 420 [1]]"

text \<open>
  An installation whose dex file's directory is writable, with an odex file compiled against
  another load address of the boot image, and the assistant after it has computed the odex
  candidate's status.
\<close>

definition writable_assistant :: "nat OatFileAssistant" where
  "writable_assistant = sample_assistant\<lparr>dex_parent_writable_m := True\<rparr>"

definition odex_relocation_disk :: disk where
  "odex_relocation_disk =
     [''/a/b.apk'' \<mapsto> Regular 420 [1], ''/boot.art'' \<mapsto> Regular 420 [1],
      ''/a/oat/arm/b.odex'' \<mapsto> Regular 420 [2], ''/a/oat/arm/b.vdex'' \<mapsto> Regular 420 [1]]"

definition writable_assistant_after_status :: "nat OatFileAssistant" where
  "writable_assistant_after_status =
     \<lparr>dex_location_m = ''/a/b.apk'',
      isa_m = 1,
      load_executable_m = True,
      dex_parent_writable_m = True,
      required_dex_checksums_attempted_m = True,
      required_dex_checksums_found_m = True,
      cached_required_dex_checksums_m = [0xABCD],
      has_original_dex_files_m = True,
      image_info_load_attempted_m = True,
      cached_image_info_m = Some \<lparr>location = ''/boot.art'', oat_checksum = 0x1111,
                                   oat_data_begin = 0x70000000, patch_delta = 0\<rparr>,
      odex_m = \<lparr>is_oat_location_m = False,
                filename_provided_m = True,
                filename_m = ''/a/oat/arm/b.odex'',
                load_attempted_m = True,
                file_m = Some (sample_oat_file True True),
                status_attempted_m = True,
                status_m = kOatRelocationOutOfDate,
                file_released_m = False\<rparr>,
      oat_m = sample_info True ''/c/b.dex''\<rparr>"

text \<open>
  The sample runtime with a reader of oat files that ignores the request to open a file as
  not executable: every file it opens is executable.
\<close>

definition executable_reader_env :: "nat env" where
  "executable_reader_env =
     sample_env\<lparr>OatFile_Open :=
       (\<lambda>d p executable l. case d p of
          Some (Regular m (b # bs)) \<Rightarrow> Some (sample_oat_file (b = 2) True)
        | _ \<Rightarrow> None)\<rparr>"

section \<open>The getters return the values behind the fields\<close>

lemma info_simps [simp]: "info Odex a = odex_m a" "info Oat a = oat_m a"
  by (simp_all add: info_def)

lemma set_info_simps [simp]:
  "set_info Odex i a = a\<lparr>odex_m := i\<rparr>" "set_info Oat i a = a\<lparr>oat_m := i\<rparr>"
  by (simp_all add: set_info_def)

lemma required_value_cong:
  assumes "required_dex_checksums_attempted_m a' = required_dex_checksums_attempted_m a"
    and "required_dex_checksums_found_m a' = required_dex_checksums_found_m a"
    and "cached_required_dex_checksums_m a' = cached_required_dex_checksums_m a"
    and "has_original_dex_files_m a' = has_original_dex_files_m a"
    and "dex_location_m a' = dex_location_m a"
    and "file_value env d Odex a' = file_value env d Odex a"
  shows "required_value env d a' = required_value env d a"
  using assms by (simp add: required_value_def cong: option.case_cong)

lemma image_value_cong:
  assumes "image_info_load_attempted_m a' = image_info_load_attempted_m a"
    and "cached_image_info_m a' = cached_image_info_m a"
    and "isa_m a' = isa_m a"
  shows "image_value env d a' = image_value env d a"
  using assms by (simp add: image_value_def)

lemma file_value_load:
  assumes "\<not> load_attempted_m (info r a)"
  shows "file_value env d r'
           (set_info r (if filename_provided_m (info r a)
                        then (info r a)\<lparr>load_attempted_m := True,
                               file_m := OatFile_Open env d (filename_m (info r a))
                                           (load_executable_m a) (dex_location_m a)\<rparr>
                        else (info r a)\<lparr>load_attempted_m := True\<rparr>) a)
         = file_value env d r' a"
  using assms by (cases r; cases r') (simp_all add: file_value_def)

lemma GetFile_eq:
  "OatFileInfo_GetFile env d r a =
     (if file_released_m (info r a) then None
      else if load_attempted_m (info r a) then Some (file_value env d r a, a)
      else Some (file_value env d r a,
             set_info r (if filename_provided_m (info r a)
                        then (info r a)\<lparr>load_attempted_m := True,
                               file_m := OatFile_Open env d (filename_m (info r a))
                                           (load_executable_m a) (dex_location_m a)\<rparr>
                        else (info r a)\<lparr>load_attempted_m := True\<rparr>) a))"
  by (cases r) (simp_all add: OatFileInfo_GetFile_def file_value_def Let_def)

lemma GetFile_sem:
  assumes "\<not> file_released_m (info r a)"
  shows "\<exists>a'. OatFileInfo_GetFile env d r a = Some (file_value env d r a, a')
           \<and> base env d a' = base env d a \<and> raw_status a' = raw_status a
           \<and> caches a' = caches a"
proof (cases "load_attempted_m (info r a)")
  case True
  with assms show ?thesis by (simp add: GetFile_eq)
next
  case False
  let ?a' = "set_info r (if filename_provided_m (info r a)
                        then (info r a)\<lparr>load_attempted_m := True,
                               file_m := OatFile_Open env d (filename_m (info r a))
                                           (load_executable_m a) (dex_location_m a)\<rparr>
                        else (info r a)\<lparr>load_attempted_m := True\<rparr>) a"
  have fv: "\<And>r'. file_value env d r' ?a' = file_value env d r' a"
    using False by (rule file_value_load)
  have rq: "required_value env d ?a' = required_value env d a"
    by (rule required_value_cong) (cases r, simp_all add: fv)+
  have im: "image_value env d ?a' = image_value env d a"
    by (rule image_value_cong) (cases r, simp_all)+
  have fr: "frame ?a' = frame a" "raw_status ?a' = raw_status a" "caches ?a' = caches a"
    by (cases r, simp_all add: frame_def fixed_fields_def raw_status_def caches_def)+
  show ?thesis using assms False fv rq im fr by (simp add: GetFile_eq base_def)
qed

lemma file_value_cong:
  assumes "odex_m a' = odex_m a" and "oat_m a' = oat_m a"
    and "load_executable_m a' = load_executable_m a" and "dex_location_m a' = dex_location_m a"
  shows "file_value env d r a' = file_value env d r a"
  using assms by (cases r) (simp_all add: file_value_def)

lemma frame_cong:
  assumes "odex_m a' = odex_m a" and "oat_m a' = oat_m a"
    and "load_executable_m a' = load_executable_m a" and "dex_location_m a' = dex_location_m a"
    and "isa_m a' = isa_m a" and "dex_parent_writable_m a' = dex_parent_writable_m a"
  shows "frame a' = frame a"
  using assms by (simp add: frame_def)

lemma raw_status_cong:
  assumes "odex_m a' = odex_m a" and "oat_m a' = oat_m a"
  shows "raw_status a' = raw_status a"
  using assms by (simp add: raw_status_def)

lemma GetRequiredDexChecksums_loop_fst_snd:
  "GetRequiredDexChecksums_loop es acc =
     (fst (GetRequiredDexChecksums_loop es acc), snd (GetRequiredDexChecksums_loop es acc))"
  by simp

lemma GetRequiredDexChecksums_sem:
  assumes "\<not> file_released_m (odex_m a)"
  shows "\<exists>a'. GetRequiredDexChecksums env d a = Some (required_checksums_value env d a, a')
           \<and> base env d a' = base env d a \<and> raw_status a' = raw_status a
           \<and> required_dex_checksums_attempted_m a'"
proof (cases "required_dex_checksums_attempted_m a")
  case True
  then show ?thesis
    by (simp add: GetRequiredDexChecksums_def required_checksums_value_def
        required_value_def required_dex_checksums_result_def)
next
  case False
  show ?thesis
  proof (cases "GetMultiDexChecksums env d (dex_location_m a)")
    case (Some cs)
    let ?a' = "a\<lparr>required_dex_checksums_attempted_m := True,
                   required_dex_checksums_found_m := False,
                   cached_required_dex_checksums_m := [],
                   cached_required_dex_checksums_m := cs,
                   required_dex_checksums_found_m := True,
                   has_original_dex_files_m := True\<rparr>"
    have fv: "\<And>r. file_value env d r ?a' = file_value env d r a"
      by (rule file_value_cong) simp_all
    have rq: "required_value env d ?a' = required_value env d a"
      using False Some by (simp add: required_value_def)
    have im: "image_value env d ?a' = image_value env d a"
      by (rule image_value_cong) simp_all
    have fr: "frame ?a' = frame a" by (rule frame_cong) simp_all
    have rs: "raw_status ?a' = raw_status a" by (rule raw_status_cong) simp_all
    have res: "GetRequiredDexChecksums env d a = Some (required_checksums_value env d a, ?a')"
      using False Some
      by (simp add: GetRequiredDexChecksums_def required_checksums_value_def
          required_value_def required_dex_checksums_result_def Let_def)
    show ?thesis using res fv rq im fr rs by (simp add: base_def)
  next
    case None
    let ?a1 = "a\<lparr>required_dex_checksums_attempted_m := True,
                   required_dex_checksums_found_m := False,
                   cached_required_dex_checksums_m := [],
                   has_original_dex_files_m := False\<rparr>"
    have rel: "\<not> file_released_m (info Odex ?a1)" using assms by simp
    obtain a3 where g: "OatFileInfo_GetFile env d Odex ?a1 = Some (file_value env d Odex ?a1, a3)"
      and b3: "base env d a3 = base env d ?a1" and r3: "raw_status a3 = raw_status ?a1"
      and c3: "caches a3 = caches ?a1"
      using GetFile_sem [OF rel] by blast
    have fv1: "\<And>r. file_value env d r ?a1 = file_value env d r a"
      by (rule file_value_cong) simp_all
    have fr1: "frame ?a1 = frame a" by (rule frame_cong) simp_all
    have rs1: "raw_status ?a1 = raw_status a" by (rule raw_status_cong) simp_all
    have fv3: "\<And>r. file_value env d r a3 = file_value env d r a"
      using b3 fv1 by (case_tac r) (simp_all add: base_def)
    have fr3: "frame a3 = frame a" using b3 fr1 by (simp add: base_def)
    have c3': "required_dex_checksums_attempted_m a3" "cached_required_dex_checksums_m a3 = []"
      "\<not> required_dex_checksums_found_m a3" "\<not> has_original_dex_files_m a3"
      "image_info_load_attempted_m a3 = image_info_load_attempted_m a"
      "cached_image_info_m a3 = cached_image_info_m a"
      using c3 by (simp_all add: caches_def)
    have isa3: "isa_m a3 = isa_m a" using fr3 by (simp add: frame_def)
    define a4 where "a4 = (case file_value env d Odex a of
                              None \<Rightarrow> a3
                            | Some f \<Rightarrow>
                                a3\<lparr>required_dex_checksums_found_m :=
                                       fst (GetRequiredDexChecksums_loop (oat_dex_files f) []),
                                     cached_required_dex_checksums_m :=
                                       snd (GetRequiredDexChecksums_loop (oat_dex_files f) [])\<rparr>)"
    have res: "GetRequiredDexChecksums env d a = Some (required_dex_checksums_result a4, a4)"
      using False None g c3'(2)
      by (simp add: GetRequiredDexChecksums_def Let_def fv1 a4_def case_prod_unfold
          split: option.splits)
    have fv4: "\<And>r. file_value env d r a4 = file_value env d r a"
      unfolding a4_def using fv3
      by (auto split: option.splits intro: trans [OF file_value_cong])
    have rq4: "required_value env d a4 = required_value env d a"
      using False None c3'
      by (simp add: required_value_def a4_def split: option.splits)
    have im4: "image_value env d a4 = image_value env d a"
      using c3' isa3 by (simp add: image_value_def a4_def split: option.splits)
    have fr4: "frame a4 = frame a"
      using fr3 by (simp add: a4_def frame_def split: option.splits)
    have rs4: "raw_status a4 = raw_status a"
      using r3 rs1 by (simp add: a4_def raw_status_def split: option.splits)
    have at4: "required_dex_checksums_attempted_m a4"
      using c3' by (simp add: a4_def split: option.splits)
    have t4: "required_value env d a4 =
                (required_dex_checksums_found_m a4, cached_required_dex_checksums_m a4,
                 has_original_dex_files_m a4)"
      using at4 by (simp add: required_value_def)
    have val: "required_dex_checksums_result a4 = required_checksums_value env d a"
      unfolding required_checksums_value_def required_dex_checksums_result_def
        rq4 [symmetric] t4 by simp
    show ?thesis using res val fv4 rq4 im4 fr4 rs4 at4 by (simp add: base_def)
  qed
qed

lemma safe_base: "base env d a' = base env d a \<Longrightarrow> safe a' = safe a"
  by (simp add: base_def frame_def fixed_fields_def safe_def)

lemma GetImageInfo_sem:
  "\<exists>a'. GetImageInfo env d a = (image_value env d a, a')
         \<and> base env d a' = base env d a \<and> raw_status a' = raw_status a"
proof (cases "image_info_load_attempted_m a")
  case True
  then show ?thesis by (simp add: GetImageInfo_def image_value_def)
next
  case False
  let ?a' = "a\<lparr>image_info_load_attempted_m := True,
                 cached_image_info_m := GetRuntimeImageInfo env d (isa_m a)\<rparr>"
  have fv: "\<And>r. file_value env d r ?a' = file_value env d r a"
    by (rule file_value_cong) simp_all
  have rq: "required_value env d ?a' = required_value env d a"
    by (rule required_value_cong) (simp_all add: fv)
  have im: "image_value env d ?a' = image_value env d a"
    using False by (simp add: image_value_def)
  have fr: "frame ?a' = frame a" by (rule frame_cong) simp_all
  have rs: "raw_status ?a' = raw_status a" by (rule raw_status_cong) simp_all
  have res: "GetImageInfo env d a = (image_value env d a, ?a')"
    using False by (simp add: GetImageInfo_def image_value_def Let_def)
  show ?thesis using res fv rq im fr rs by (simp add: base_def)
qed

lemma HasOriginalDexFiles_sem:
  assumes "\<not> file_released_m (odex_m a)"
  shows "\<exists>a'. HasOriginalDexFiles env d a = Some (has_dex_value env d a, a')
           \<and> base env d a' = base env d a \<and> raw_status a' = raw_status a"
proof -
  obtain a1 where g: "GetRequiredDexChecksums env d a = Some (required_checksums_value env d a, a1)"
    and b: "base env d a1 = base env d a" and r: "raw_status a1 = raw_status a"
    and at: "required_dex_checksums_attempted_m a1"
    using GetRequiredDexChecksums_sem [OF assms] by blast
  have "has_dex_value env d a1 = has_original_dex_files_m a1"
    using at by (simp add: has_dex_value_def required_value_def)
  moreover have "has_dex_value env d a1 = has_dex_value env d a"
    using b by (simp add: has_dex_value_def base_def)
  ultimately show ?thesis using g b r by (simp add: HasOriginalDexFiles_def)
qed

declare DexChecksumUpToDate_vdex_loop.simps [simp del]
declare DexChecksumUpToDate_oat_loop.simps [simp del]

lemma DexChecksumUpToDate_vdex_loop_iff:
  "DexChecksumUpToDate_vdex_loop i n required actual
     = (\<forall>j. i \<le> j \<and> j < n \<longrightarrow> required ! j = actual ! j)"
proof (induction i n required actual rule: DexChecksumUpToDate_vdex_loop.induct)
  case (1 i n required actual)
  show ?case
  proof (cases "i < n")
    case False
    then show ?thesis by (subst DexChecksumUpToDate_vdex_loop.simps) auto
  next
    case True
    show ?thesis
    proof (cases "required ! i = actual ! i")
      case False
      with True show ?thesis
        by (subst DexChecksumUpToDate_vdex_loop.simps) auto
    next
      case eq: True
      have "DexChecksumUpToDate_vdex_loop i n required actual
              = DexChecksumUpToDate_vdex_loop (Suc i) n required actual"
        using True eq by (subst DexChecksumUpToDate_vdex_loop.simps) simp
      also have "\<dots> = (\<forall>j. Suc i \<le> j \<and> j < n \<longrightarrow> required ! j = actual ! j)"
        using "1.IH" True eq by simp
      also have "\<dots> = (\<forall>j. i \<le> j \<and> j < n \<longrightarrow> required ! j = actual ! j)"
        using eq by (metis Suc_leI le_neq_implies_less Suc_leD)
      finally show ?thesis .
    qed
  qed
qed

lemma DexChecksumUpToDate_oat_loop_iff:
  "DexChecksumUpToDate_oat_loop i n required entries
     = (\<forall>j. i \<le> j \<and> j < n \<longrightarrow> entries ! j = Some (required ! j))"
proof (induction i n required entries rule: DexChecksumUpToDate_oat_loop.induct)
  case (1 i n required entries)
  show ?case
  proof (cases "i < n")
    case False
    then show ?thesis by (subst DexChecksumUpToDate_oat_loop.simps) auto
  next
    case True
    show ?thesis
    proof (cases "entries ! i = Some (required ! i)")
      case False
      with True show ?thesis
        by (subst DexChecksumUpToDate_oat_loop.simps) (auto split: option.splits)
    next
      case eq: True
      have "DexChecksumUpToDate_oat_loop i n required entries
              = DexChecksumUpToDate_oat_loop (Suc i) n required entries"
        using True eq by (subst DexChecksumUpToDate_oat_loop.simps) simp
      also have "\<dots> = (\<forall>j. Suc i \<le> j \<and> j < n \<longrightarrow> entries ! j = Some (required ! j))"
        using "1.IH" [of "required ! i"] True eq by simp
      also have "\<dots> = (\<forall>j. i \<le> j \<and> j < n \<longrightarrow> entries ! j = Some (required ! j))"
        using eq by (metis Suc_leI le_neq_implies_less Suc_leD)
      finally show ?thesis .
    qed
  qed
qed

lemma vdex_checksums_differ:
  "checksums_differ required (map Some cs) =
     (case required of
        None \<Rightarrow> False
      | Some rs \<Rightarrow> \<not> (length rs = length cs
                      \<and> DexChecksumUpToDate_vdex_loop 0 (length cs) rs cs))"
  by (auto simp: checksums_differ_def DexChecksumUpToDate_vdex_loop_iff split: option.splits)

lemma oat_checksums_differ:
  "checksums_differ required es =
     (case required of
        None \<Rightarrow> False
      | Some rs \<Rightarrow> \<not> (length rs = length es
                      \<and> DexChecksumUpToDate_oat_loop 0 (length es) rs es))"
  by (auto simp: checksums_differ_def DexChecksumUpToDate_oat_loop_iff split: option.splits)

lemma checksums_differ_iff_lists:
  "checksums_differ required candidate =
     (case required of None \<Rightarrow> False | Some rs \<Rightarrow> map Some rs \<noteq> candidate)"
  by (auto simp: checksums_differ_def list_eq_iff_nth_eq split: option.splits)

lemma base_values:
  assumes "base env d a' = base env d a"
  shows "file_value env d r a' = file_value env d r a"
    and "required_checksums_value env d a' = required_checksums_value env d a"
    and "has_dex_value env d a' = has_dex_value env d a"
    and "image_value env d a' = image_value env d a"
    and "frame a' = frame a"
  using assms
  by (cases r, simp_all add: base_def required_checksums_value_def has_dex_value_def)

lemma frame_fields:
  assumes "frame a' = frame a"
  shows "file_released_m (info r a') = file_released_m (info r a)"
    and "filename_m (info r a') = filename_m (info r a)"
    and "filename_provided_m (info r a') = filename_provided_m (info r a)"
    and "is_oat_location_m (info r a') = is_oat_location_m (info r a)"
    and "dex_parent_writable_m a' = dex_parent_writable_m a"
    and "load_executable_m a' = load_executable_m a"
    and "dex_location_m a' = dex_location_m a"
    and "isa_m a' = isa_m a"
  using assms by (cases r, simp_all add: frame_def fixed_fields_def)+

lemma DexChecksumUpToDate_vdex_sem:
  assumes "\<not> file_released_m (odex_m a)"
  shows "\<exists>a'. DexChecksumUpToDate_vdex env d v a
                = Some (\<not> checksums_differ (required_checksums_value env d a)
                            (map Some (vdex_checksums v)), a')
           \<and> base env d a' = base env d a \<and> raw_status a' = raw_status a"
proof -
  obtain a1 where g: "GetRequiredDexChecksums env d a = Some (required_checksums_value env d a, a1)"
    and b: "base env d a1 = base env d a" and r: "raw_status a1 = raw_status a"
    using GetRequiredDexChecksums_sem [OF assms] by blast
  show ?thesis
    using g b r
    by (auto simp: DexChecksumUpToDate_vdex_def vdex_checksums_differ Let_def
        split: option.splits)
qed

lemma DexChecksumUpToDate_oat_sem:
  assumes "\<not> file_released_m (odex_m a)"
  shows "\<exists>a'. DexChecksumUpToDate_oat env d f a
                = Some (\<not> checksums_differ (required_checksums_value env d a)
                            (oat_dex_files f), a')
           \<and> base env d a' = base env d a \<and> raw_status a' = raw_status a"
proof -
  obtain a1 where g: "GetRequiredDexChecksums env d a = Some (required_checksums_value env d a, a1)"
    and b: "base env d a1 = base env d a" and r: "raw_status a1 = raw_status a"
    using GetRequiredDexChecksums_sem [OF assms] by blast
  show ?thesis
    using g b r
    by (auto simp: DexChecksumUpToDate_oat_def oat_checksums_differ Let_def
        split: option.splits)
qed

lemma checksum_gate_sem:
  assumes "\<not> file_released_m (odex_m a)"
  shows "\<exists>a'. (if kIsVdexEnabled env then DexChecksumUpToDate_vdex env d (GetVdexFile f) a
               else DexChecksumUpToDate_oat env d f a)
                = Some (\<not> checksums_differ (required_checksums_value env d a)
                            (candidate_checksums env f), a')
           \<and> base env d a' = base env d a \<and> raw_status a' = raw_status a"
  using DexChecksumUpToDate_vdex_sem [OF assms, of env d "GetVdexFile f"]
    DexChecksumUpToDate_oat_sem [OF assms, of env d f]
  by (simp add: candidate_checksums_def)

lemma image_checksum_sem:
  assumes rel: "\<not> file_released_m (odex_m a)"
  shows "\<exists>a'. GivenOatFileStatus_image_checksum env d f a
                = Some (if boot_image_gate_rejects env f (image_value env d a)
                             (has_dex_value env d a)
                        then Some kOatBootImageOutOfDate else None, a')
           \<and> base env d a' = base env d a \<and> raw_status a' = raw_status a"
proof -
  obtain a1 where g1: "GetImageInfo env d a = (image_value env d a, a1)"
    and b1: "base env d a1 = base env d a" and r1: "raw_status a1 = raw_status a"
    using GetImageInfo_sem [of env d a] by auto
  have rel1: "\<not> file_released_m (odex_m a1)"
    using rel frame_fields(1) [OF base_values(5) [OF b1], of Odex] by simp
  obtain a2 where g2: "HasOriginalDexFiles env d a1 = Some (has_dex_value env d a, a2)"
    and b2: "base env d a2 = base env d a" and r2: "raw_status a2 = raw_status a"
    using HasOriginalDexFiles_sem [OF rel1, of env d] b1 r1 base_values(3) [OF b1] by auto
  show ?thesis
    using g1 g2 b1 r1 b2 r2
    by (auto simp: GivenOatFileStatus_image_checksum_def boot_image_gate_rejects_def
        split: option.splits)
qed

lemma relocation_sem:
  "\<exists>a'. GivenOatFileStatus_relocation env d f a
           = (if relocation_gate_rejects env f (image_value env d a)
              then kOatRelocationOutOfDate else kOatUpToDate, a')
         \<and> base env d a' = base env d a \<and> raw_status a' = raw_status a"
proof -
  obtain a1 where g1: "GetImageInfo env d a = (image_value env d a, a1)"
    and b1: "base env d a1 = base env d a" and r1: "raw_status a1 = raw_status a"
    using GetImageInfo_sem [of env d a] by auto
  show ?thesis
    using g1 b1 r1
    by (auto simp: GivenOatFileStatus_relocation_def relocation_gate_rejects_def
        split: option.splits)
qed

lemma GivenOatFileStatus_sem:
  assumes rel: "\<not> file_released_m (odex_m a)"
  shows "\<exists>a'. GivenOatFileStatus env d f a
                = Some (freshness_spec env f (required_checksums_value env d a)
                          (image_value env d a) (has_dex_value env d a), a')
           \<and> base env d a' = base env d a \<and> raw_status a' = raw_status a"
proof (cases "IsConcurrentCopying f \<noteq> kUseReadBarrier env")
  case True
  then show ?thesis by (simp add: GivenOatFileStatus_def freshness_spec_def)
next
  case cc: False
  obtain a1 where
    g1: "(if kIsVdexEnabled env then DexChecksumUpToDate_vdex env d (GetVdexFile f) a
          else DexChecksumUpToDate_oat env d f a)
           = Some (\<not> checksums_differ (required_checksums_value env d a)
                       (candidate_checksums env f), a1)"
    and b1: "base env d a1 = base env d a" and r1: "raw_status a1 = raw_status a"
    using checksum_gate_sem [OF rel] by blast
  have rel1: "\<not> file_released_m (odex_m a1)"
    using rel frame_fields(1) [OF base_values(5) [OF b1], of Odex] by simp
  obtain a2 where
    g2: "GivenOatFileStatus_image_checksum env d f a1
           = Some (if boot_image_gate_rejects env f (image_value env d a)
                        (has_dex_value env d a)
                   then Some kOatBootImageOutOfDate else None, a2)"
    and b2: "base env d a2 = base env d a" and r2: "raw_status a2 = raw_status a"
    using image_checksum_sem [OF rel1, of env d f] b1 r1 base_values(3,4) [OF b1] by auto
  obtain a3 where
    g3: "GivenOatFileStatus_relocation env d f a2
           = (if relocation_gate_rejects env f (image_value env d a)
              then kOatRelocationOutOfDate else kOatUpToDate, a3)"
    and b3: "base env d a3 = base env d a" and r3: "raw_status a3 = raw_status a"
    using relocation_sem [of env d f a2] b2 r2 base_values(4) [OF b2] by auto
  show ?thesis
    using cc g1 g2 g3 b1 r1 b2 r2 b3 r3
    by (simp add: GivenOatFileStatus_def freshness_spec_def)
qed

lemma status_value_cong:
  assumes "base env d a' = base env d a"
    and "status_attempted_m (info r a') = status_attempted_m (info r a)"
    and "status_m (info r a') = status_m (info r a)"
  shows "status_value env d r a' = status_value env d r a"
  using assms base_values [OF assms(1)] frame_fields(2) [OF base_values(5) [OF assms(1)], of r]
  by (simp add: status_value_def cong: option.case_cong)

lemma raw_status_fields:
  assumes "raw_status a' = raw_status a"
  shows "status_attempted_m (info r a') = status_attempted_m (info r a)"
    and "status_m (info r a') = status_m (info r a)"
  using assms by (cases r, simp_all add: raw_status_def)+

lemma core_view:
  assumes "base env d a' = base env d a" and "raw_status a' = raw_status a"
  shows "view env d a' = view env d a"
  using assms status_value_cong [OF assms(1) raw_status_fields [OF assms(2)]]
  by (simp add: view_def)

lemma file_value_cong2:
  assumes "load_attempted_m (info r a') = load_attempted_m (info r a)"
    and "file_m (info r a') = file_m (info r a)"
    and "filename_provided_m (info r a') = filename_provided_m (info r a)"
    and "filename_m (info r a') = filename_m (info r a)"
    and "load_executable_m a' = load_executable_m a"
    and "dex_location_m a' = dex_location_m a"
  shows "file_value env d r a' = file_value env d r a"
  using assms by (simp add: file_value_def)

lemma base_cong:
  assumes "\<And>r. file_value env d r a' = file_value env d r a"
    and "caches a' = caches a" and "frame a' = frame a"
  shows "base env d a' = base env d a"
proof -
  have rq: "required_value env d a' = required_value env d a"
    using assms(2) frame_fields(7) [OF assms(3)]
    by (intro required_value_cong) (simp_all add: caches_def assms(1))
  have im: "image_value env d a' = image_value env d a"
    using assms(2) frame_fields(8) [OF assms(3)]
    by (intro image_value_cong) (simp_all add: caches_def)
  show ?thesis using assms rq im by (simp add: base_def)
qed

lemma base_status_attempted_update:
  "base env d (set_info r ((info r a)\<lparr>status_attempted_m := t\<rparr>) a) = base env d a"
proof (rule base_cong)
  fix r'
  show "file_value env d r' (set_info r ((info r a)\<lparr>status_attempted_m := t\<rparr>) a)
          = file_value env d r' a"
    by (rule file_value_cong2) (cases r; cases r'; simp)+
qed (cases r; simp add: caches_def frame_def fixed_fields_def)+

lemma base_set_status:
  "base env d (set_status r st a) = base env d a"
proof (rule base_cong)
  fix r'
  show "file_value env d r' (set_status r st a) = file_value env d r' a"
    by (rule file_value_cong2) (cases r; cases r'; simp add: set_status_def)+
qed (cases r; simp add: caches_def frame_def fixed_fields_def set_status_def)+

lemma set_status_fields:
  "status_m (info r (set_status r st a)) = st"
  "status_attempted_m (info r (set_status r st a)) = status_attempted_m (info r a)"
  "r' \<noteq> r \<Longrightarrow> info r' (set_status r st a) = info r' a"
  by (cases r; cases r'; simp add: set_status_def)+

lemma set_attempted_fields:
  "status_attempted_m (info r (set_info r ((info r a)\<lparr>status_attempted_m := True\<rparr>) a))"
  "r' \<noteq> r \<Longrightarrow> info r' (set_info r ((info r a)\<lparr>status_attempted_m := True\<rparr>) a) = info r' a"
  by (cases r; cases r'; simp)+

lemma safe_released: "safe a \<Longrightarrow> \<not> file_released_m (info r a)"
  by (cases r) (simp_all add: safe_def)

lemma Status_sem_full:
  assumes safe: "safe a"
  shows "\<exists>a'. OatFileInfo_Status env d r a = Some (status_value env d r a, a')
           \<and> view env d a' = view env d a \<and> status_attempted_m (info r a')
           \<and> (\<forall>r'. r' \<noteq> r \<longrightarrow>
                  status_attempted_m (info r' a') = status_attempted_m (info r' a))"
proof (cases "status_attempted_m (info r a)")
  case True
  then show ?thesis by (simp add: OatFileInfo_Status_def status_value_def)
next
  case False
  let ?a1 = "set_info r ((info r a)\<lparr>status_attempted_m := True\<rparr>) a"
  define st where "st = status_value env d r a"
  have b1: "base env d ?a1 = base env d a" by (rule base_status_attempted_update)
  have safe1: "safe ?a1" using safe safe_base [OF b1] by simp
  obtain a2 where g2: "OatFileInfo_GetFile env d r ?a1 = Some (file_value env d r a, a2)"
    and b2: "base env d a2 = base env d a" and r2: "raw_status a2 = raw_status ?a1"
    using GetFile_sem [OF safe_released [OF safe1], of env d] b1 base_values(1) [OF b1] by auto
  have safe2: "safe a2" using safe safe_base [OF b2] by simp
  have fn2: "filename_m (info r a2) = filename_m (info r a)"
    using frame_fields(2) [OF base_values(5) [OF b2]] .
  have "\<exists>a3. (case file_value env d r a of
               None \<Rightarrow>
                 (case VdexFile_Open env d (GetVdexFilename env (filename_m (info r a2))) of
                    None \<Rightarrow> Some (set_status r kOatCannotOpen a2)
                  | Some vdex \<Rightarrow>
                      do {
                        (up_to_date, a3) \<leftarrow> DexChecksumUpToDate_vdex env d vdex a2;
                        Some (set_status r (if up_to_date then kOatBootImageOutOfDate
                                            else kOatDexOutOfDate) a3)
                      })
             | Some file \<Rightarrow>
                 do {
                   (st, a3) \<leftarrow> GivenOatFileStatus env d file a2;
                   Some (set_status r st a3)
                 }) = Some (set_status r st a3)
          \<and> base env d a3 = base env d a \<and> raw_status a3 = raw_status ?a1"
  proof (cases "file_value env d r a")
    case None
    show ?thesis
    proof (cases "VdexFile_Open env d (GetVdexFilename env (filename_m (info r a)))")
      case vn: None
      have "st = kOatCannotOpen"
        using False None vn by (simp add: st_def status_value_def vdex_only_spec_def)
      then show ?thesis using None vn fn2 b2 r2 by auto
    next
      case (Some v)
      obtain a3 where g3: "DexChecksumUpToDate_vdex env d v a2
                = Some (\<not> checksums_differ (required_checksums_value env d a)
                            (map Some (vdex_checksums v)), a3)"
        and b3: "base env d a3 = base env d a" and r3: "raw_status a3 = raw_status ?a1"
        using DexChecksumUpToDate_vdex_sem [OF safe_released [OF safe2, of Odex, simplified], of env d v]
          b2 r2 base_values(2) [OF b2] by auto
      have "st = (if checksums_differ (required_checksums_value env d a)
                            (map Some (vdex_checksums v)) then kOatDexOutOfDate
                  else kOatBootImageOutOfDate)"
        using False None Some by (simp add: st_def status_value_def vdex_only_spec_def)
      then show ?thesis using None Some fn2 g3 b3 r3 by auto
    qed
  next
    case (Some f)
    obtain a3 where g3: "GivenOatFileStatus env d f a2
                = Some (freshness_spec env f (required_checksums_value env d a)
                          (image_value env d a) (has_dex_value env d a), a3)"
      and b3: "base env d a3 = base env d a" and r3: "raw_status a3 = raw_status ?a1"
      using GivenOatFileStatus_sem [OF safe_released [OF safe2, of Odex, simplified], of env d f]
        b2 r2 base_values(2,3,4) [OF b2] by auto
    have "st = freshness_spec env f (required_checksums_value env d a)
                          (image_value env d a) (has_dex_value env d a)"
      using False Some by (simp add: st_def status_value_def)
    then show ?thesis using Some g3 b3 r3 by auto
  qed
  then obtain a3 where g3: "(case file_value env d r a of
               None \<Rightarrow>
                 (case VdexFile_Open env d (GetVdexFilename env (filename_m (info r a2))) of
                    None \<Rightarrow> Some (set_status r kOatCannotOpen a2)
                  | Some vdex \<Rightarrow>
                      do {
                        (up_to_date, a3) \<leftarrow> DexChecksumUpToDate_vdex env d vdex a2;
                        Some (set_status r (if up_to_date then kOatBootImageOutOfDate
                                            else kOatDexOutOfDate) a3)
                      })
             | Some file \<Rightarrow>
                 do {
                   (st, a3) \<leftarrow> GivenOatFileStatus env d file a2;
                   Some (set_status r st a3)
                 }) = Some (set_status r st a3)"
    and b3: "base env d a3 = base env d a" and r3: "raw_status a3 = raw_status ?a1"
    by blast
  let ?a5 = "set_status r st a3"
  have res: "OatFileInfo_Status env d r a = Some (st, ?a5)"
    using False g2 g3 by (simp add: OatFileInfo_Status_def set_status_fields)
  have b5: "base env d ?a5 = base env d a" using b3 by (simp add: base_set_status)
  have at3: "status_attempted_m (info r a3)"
    using raw_status_fields(1) [OF r3, of r] set_attempted_fields(1) [of r a] by simp
  have at5: "status_attempted_m (info r ?a5)" using at3 by (simp add: set_status_fields)
  have sv: "status_value env d r ?a5 = st"
    using at5 by (simp add: status_value_def set_status_fields)
  have other: "status_value env d r' ?a5 = status_value env d r' a" if "r' \<noteq> r" for r'
  proof (rule status_value_cong [OF b5])
    show "status_attempted_m (info r' ?a5) = status_attempted_m (info r' a)"
      using that raw_status_fields(1) [OF r3, of r'] by (simp add: set_status_fields set_attempted_fields)
    show "status_m (info r' ?a5) = status_m (info r' a)"
      using that raw_status_fields(2) [OF r3, of r'] by (simp add: set_status_fields set_attempted_fields)
  qed
  have oth: "status_attempted_m (info r' ?a5) = status_attempted_m (info r' a)"
    if "r' \<noteq> r" for r'
    using that raw_status_fields(1) [OF r3, of r']
    by (simp add: set_status_fields set_attempted_fields)
  have "view env d ?a5 = view env d a"
    using b5 sv other [of Odex] other [of Oat] by (cases r) (simp_all add: view_def st_def)
  then show ?thesis using res at5 oth by (simp add: st_def)
qed

lemma Status_sem:
  assumes "safe a"
  shows "\<exists>a'. OatFileInfo_Status env d r a = Some (status_value env d r a, a')
           \<and> view env d a' = view env d a \<and> status_attempted_m (info r a')"
  using Status_sem_full [OF assms, of env d r] by blast

lemma view_values:
  assumes "view env d a' = view env d a"
  shows "status_value env d r a' = status_value env d r a"
    and "file_value env d r a' = file_value env d r a"
    and "required_checksums_value env d a' = required_checksums_value env d a"
    and "has_dex_value env d a' = has_dex_value env d a"
    and "image_value env d a' = image_value env d a"
    and "frame a' = frame a"
    and "safe a' = safe a"
proof -
  have b: "base env d a' = base env d a" using assms by (simp add: view_def)
  show "status_value env d r a' = status_value env d r a"
    using assms by (cases r) (simp_all add: view_def)
  show "file_value env d r a' = file_value env d r a"
    and "required_checksums_value env d a' = required_checksums_value env d a"
    and "has_dex_value env d a' = has_dex_value env d a"
    and "image_value env d a' = image_value env d a"
    and "frame a' = frame a"
    using base_values [OF b] by simp_all
  show "safe a' = safe a" using safe_base [OF b] .
qed

lemma GetFile_view:
  assumes "safe a"
  shows "\<exists>a'. OatFileInfo_GetFile env d r a = Some (file_value env d r a, a')
           \<and> view env d a' = view env d a"
  using GetFile_sem [OF safe_released [OF assms], of env d] core_view by blast

lemma HasOriginalDexFiles_view:
  assumes "safe a"
  shows "\<exists>a'. HasOriginalDexFiles env d a = Some (has_dex_value env d a, a')
           \<and> view env d a' = view env d a"
  using HasOriginalDexFiles_sem [OF safe_released [OF assms, of Odex, simplified], of env d]
    core_view by blast

lemma GetRequiredDexChecksums_view:
  assumes "safe a"
  shows "\<exists>a'. GetRequiredDexChecksums env d a = Some (required_checksums_value env d a, a')
           \<and> view env d a' = view env d a"
  using GetRequiredDexChecksums_sem [OF safe_released [OF assms, of Odex, simplified], of env d]
    core_view by blast

lemma GetImageInfo_view:
  "\<exists>a'. GetImageInfo env d a = (image_value env d a, a') \<and> view env d a' = view env d a"
  using GetImageInfo_sem [of env d a] core_view by blast

lemma GivenOatFileStatus_view:
  assumes "safe a"
  shows "\<exists>a'. GivenOatFileStatus env d f a
                = Some (freshness_spec env f (required_checksums_value env d a)
                          (image_value env d a) (has_dex_value env d a), a')
           \<and> view env d a' = view env d a"
  using GivenOatFileStatus_sem [OF safe_released [OF assms, of Odex, simplified], of env d f]
    core_view by blast

lemma usable_cases:
  "(case st of kOatCannotOpen \<Rightarrow> False | kOatDexOutOfDate \<Rightarrow> False
      | kOatBootImageOutOfDate \<Rightarrow> False | kOatRelocationOutOfDate \<Rightarrow> True
      | kOatUpToDate \<Rightarrow> True) = usable st"
  by (cases st) (simp_all add: usable_def)

lemma IsUseable_sem:
  assumes "safe a"
  shows "\<exists>a'. OatFileInfo_IsUseable env d r a = Some (usable (status_value env d r a), a')
           \<and> view env d a' = view env d a \<and> status_attempted_m (info r a')"
  using Status_sem [OF assms, of env d r]
  by (auto simp: OatFileInfo_IsUseable_def usable_cases)

lemma CompilerFilterIsOkay_sem:
  assumes "safe a"
  shows "\<exists>a'. OatFileInfo_CompilerFilterIsOkay env d r target profile_changed a
                = Some (filter_ok_spec env (file_value env d r a) target profile_changed, a')
           \<and> view env d a' = view env d a"
  using GetFile_view [OF assms, of env d r]
  by (auto simp: OatFileInfo_CompilerFilterIsOkay_def filter_ok_spec_def Let_def
      split: option.splits)

lemma IsExecutable_sem:
  assumes "safe a"
  shows "\<exists>a'. OatFileInfo_IsExecutable env d r a
                = Some (case file_value env d r a of None \<Rightarrow> False
                        | Some file \<Rightarrow> IsExecutable file, a')
           \<and> view env d a' = view env d a"
  using GetFile_view [OF assms, of env d r]
  by (auto simp: OatFileInfo_IsExecutable_def)

lemma and_Status_is_sem:
  assumes "safe a"
  shows "\<exists>a'. and_Status_is env d r c st a = Some (c \<and> status_value env d r a = st, a')
           \<and> view env d a' = view env d a"
  using Status_sem [OF assms, of env d r]
  by (auto simp: and_Status_is_def)

lemma GetBestInfo_sem:
  assumes safe: "safe a"
  shows "\<exists>a'. GetBestInfo env d a
                = Some (best_info_spec (dex_parent_writable_m a) (status_value env d Oat a)
                          (status_value env d Odex a) (has_dex_value env d a), a')
           \<and> view env d a' = view env d a"
proof (cases "dex_parent_writable_m a")
  case True
  then show ?thesis by (simp add: GetBestInfo_def best_info_spec_def)
next
  case False
  obtain a1 where g1: "OatFileInfo_IsUseable env d Oat a
                         = Some (usable (status_value env d Oat a), a1)"
    and v1: "view env d a1 = view env d a"
    using IsUseable_sem [OF safe, of env d Oat] by blast
  have s1: "safe a1" using safe view_values(7) [OF v1] by simp
  obtain a2 where g2: "OatFileInfo_Status env d Odex a1 = Some (status_value env d Odex a, a2)"
    and v2: "view env d a2 = view env d a"
    using Status_sem [OF s1, of env d Odex] v1 view_values(1) [OF v1] by auto
  have s2: "safe a2" using safe view_values(7) [OF v2] by simp
  obtain a3 where g3: "HasOriginalDexFiles env d a2 = Some (has_dex_value env d a, a3)"
    and v3: "view env d a3 = view env d a"
    using HasOriginalDexFiles_view [OF s2, of env d] v2 view_values(4) [OF v2] by auto
  have s3: "safe a3" using safe view_values(7) [OF v3] by simp
  obtain a4 where g4: "OatFileInfo_Status env d Odex a3 = Some (status_value env d Odex a, a4)"
    and v4: "view env d a4 = view env d a"
    using Status_sem [OF s3, of env d Odex] v3 view_values(1) [OF v3] by auto
  show ?thesis
    using False g1 g2 g3 g4 v1 v2 v3 v4
    by (simp add: GetBestInfo_def best_info_spec_def)
qed

lemma OatFileInfo_GetDexOptNeeded_sem:
  assumes safe: "safe a"
  shows "\<exists>a'. OatFileInfo_GetDexOptNeeded env d r target profile_changed a
                = Some (dexopt_needed_spec
                          (filter_ok_spec env (file_value env d r a) target profile_changed)
                          (IsAotCompilationEnabled env target)
                          (status_value env d r a) (has_dex_value env d a), a')
           \<and> view env d a' = view env d a"
proof -
  define ok where "ok = filter_ok_spec env (file_value env d r a) target profile_changed"
  define st where "st = status_value env d r a"
  obtain a1 where g1: "OatFileInfo_CompilerFilterIsOkay env d r target profile_changed a
                         = Some (ok, a1)"
    and v1: "view env d a1 = view env d a"
    using CompilerFilterIsOkay_sem [OF safe, of env d r target profile_changed]
    by (auto simp: ok_def)
  have s1: "safe a1" using safe view_values(7) [OF v1] by simp
  obtain a2 where g2: "and_Status_is env d r ok kOatUpToDate a1
                         = Some (ok \<and> st = kOatUpToDate, a2)"
    and v2: "view env d a2 = view env d a"
    using and_Status_is_sem [OF s1, of env d r ok kOatUpToDate] v1 view_values(1) [OF v1]
    by (auto simp: st_def)
  have s2: "safe a2" using safe view_values(7) [OF v2] by simp
  obtain a3 where g3: "and_Status_is env d r (ok \<and> \<not> IsAotCompilationEnabled env target)
                         kOatRelocationOutOfDate a2
                         = Some ((ok \<and> \<not> IsAotCompilationEnabled env target)
                                 \<and> st = kOatRelocationOutOfDate, a3)"
    and v3: "view env d a3 = view env d a"
    using and_Status_is_sem [OF s2, of env d r "ok \<and> \<not> IsAotCompilationEnabled env target"
        kOatRelocationOutOfDate] v2
      view_values(1) [OF v2]
    by (auto simp: st_def)
  have s3: "safe a3" using safe view_values(7) [OF v3] by simp
  obtain a4 where g4: "and_Status_is env d r ok kOatRelocationOutOfDate a3
                         = Some (ok \<and> st = kOatRelocationOutOfDate, a4)"
    and v4: "view env d a4 = view env d a"
    using and_Status_is_sem [OF s3, of env d r ok kOatRelocationOutOfDate] v3
      view_values(1) [OF v3]
    by (auto simp: st_def)
  have s4: "safe a4" using safe view_values(7) [OF v4] by simp
  obtain a5 where g5: "OatFileInfo_IsUseable env d r a4 = Some (usable st, a5)"
    and v5: "view env d a5 = view env d a"
    using IsUseable_sem [OF s4, of env d r] v4 view_values(1) [OF v4] by (auto simp: st_def)
  have s5: "safe a5" using safe view_values(7) [OF v5] by simp
  obtain a6 where g6: "OatFileInfo_Status env d r a5 = Some (st, a6)"
    and v6: "view env d a6 = view env d a"
    using Status_sem [OF s5, of env d r] v5 view_values(1) [OF v5] by (auto simp: st_def)
  have s6: "safe a6" using safe view_values(7) [OF v6] by simp
  obtain a7 where g7: "HasOriginalDexFiles env d a6 = Some (has_dex_value env d a, a7)"
    and v7: "view env d a7 = view env d a"
    using HasOriginalDexFiles_view [OF s6, of env d] v6 view_values(4) [OF v6] by auto
  show ?thesis
    unfolding ok_def [symmetric] st_def [symmetric]
    using g1 g2 g3 g4 g5 g6 g7 v1 v2 v3 v4 v5 v6 v7
    by (simp add: OatFileInfo_GetDexOptNeeded_def dexopt_needed_spec_def)
qed

lemma returnsI: "m = Some (x, s) \<Longrightarrow> returns m x"
  by (simp add: returns_def)

lemma returnsD: "returns m x \<Longrightarrow> \<exists>s. m = Some (x, s)"
  by (auto simp: returns_def split: option.splits)

lemma returns_unique: "returns m x \<Longrightarrow> returns m y \<Longrightarrow> x = y"
  by (auto simp: returns_def split: option.splits)

lemma returns_GetFile:
  "safe a \<Longrightarrow> returns (OatFileInfo_GetFile env d r a) (file_value env d r a)"
  using GetFile_view [of a env d r] by (auto simp: returns_def)

lemma returns_GetRequiredDexChecksums:
  "\<not> file_released_m (odex_m a) \<Longrightarrow>
     returns (GetRequiredDexChecksums env d a) (required_checksums_value env d a)"
  using GetRequiredDexChecksums_sem [of a env d] by (auto simp: returns_def)

lemma returns_HasOriginalDexFiles:
  "\<not> file_released_m (odex_m a) \<Longrightarrow>
     returns (HasOriginalDexFiles env d a) (has_dex_value env d a)"
  using HasOriginalDexFiles_sem [of a env d] by (auto simp: returns_def)

lemma fst_GetImageInfo: "fst (GetImageInfo env d a) = image_value env d a"
  using GetImageInfo_sem [of env d a] by auto

lemma returns_GivenOatFileStatus:
  "\<not> file_released_m (odex_m a) \<Longrightarrow>
     returns (GivenOatFileStatus env d f a)
       (freshness_spec env f (required_checksums_value env d a) (image_value env d a)
          (has_dex_value env d a))"
  using GivenOatFileStatus_sem [of a env d f] by (auto simp: returns_def)

lemma returns_Status:
  "safe a \<Longrightarrow> returns (OatFileInfo_Status env d r a) (status_value env d r a)"
  using Status_sem [of a env d r] by (auto simp: returns_def)

lemma returns_CompilerFilterIsOkay:
  "safe a \<Longrightarrow>
     returns (OatFileInfo_CompilerFilterIsOkay env d r target profile_changed a)
       (filter_ok_spec env (file_value env d r a) target profile_changed)"
  using CompilerFilterIsOkay_sem [of a env d r target profile_changed]
  by (auto simp: returns_def)

lemma returns_OatFileInfo_GetDexOptNeeded:
  "safe a \<Longrightarrow>
     returns (OatFileInfo_GetDexOptNeeded env d r target profile_changed a)
       (dexopt_needed_spec (filter_ok_spec env (file_value env d r a) target profile_changed)
          (IsAotCompilationEnabled env target) (status_value env d r a)
          (has_dex_value env d a))"
  using OatFileInfo_GetDexOptNeeded_sem [of a env d r target profile_changed]
  by (auto simp: returns_def)

lemma returns_GetBestInfo:
  "safe a \<Longrightarrow>
     returns (GetBestInfo env d a)
       (best_info_spec (dex_parent_writable_m a) (status_value env d Oat a)
          (status_value env d Odex a) (has_dex_value env d a))"
  using GetBestInfo_sem [of a env d] by (auto simp: returns_def)

lemmas sample_defs = sample_env_def sample_assistant_def sample_info_def sample_oat_file_def

lemmas eval_defs = status_value_def file_value_def required_checksums_value_def
  required_value_def has_dex_value_def image_value_def freshness_spec_def vdex_only_spec_def
  checksums_differ_def candidate_checksums_def boot_image_gate_rejects_def
  relocation_gate_rejects_def rfind_def GetRuntimeImageInfo_def

lemma sample_safe: "safe sample_assistant"
  by (simp add: safe_def sample_defs)

lemma sample_not_released: "\<not> file_released_m (odex_m sample_assistant)"
  by (simp add: sample_defs)

section \<open>The freshness evaluation\<close>

text \<open>
  C1. For every oat file that opened, \<open>GivenOatFileStatus\<close> returns the result of the
  gates in order: \<open>kOatCannotOpen\<close> when the file's concurrent-copying flag differs from the
  runtime's; else \<open>kOatDexOutOfDate\<close> when the checksum lists differ in count or at an index;
  else \<open>kOatBootImageOutOfDate\<close> when the boot-image gate rejects; else
  \<open>kOatRelocationOutOfDate\<close> when the filter enables AOT code, the file is not position
  independent and the image info is missing or its \<open>oat_data_begin\<close> or patch delta differs;
  else \<open>kOatUpToDate\<close>. The required checksums, the image info and the availability of the
  original dex files are what the assistant's getters return; when there are no required
  checksums at all, nothing is compared and the checksum gate passes.
\<close>

theorem GivenOatFileStatus_gates:
  assumes "\<not> file_released_m (odex_m a)"
    and "returns (GetRequiredDexChecksums env d a) required"
    and "fst (GetImageInfo env d a) = image_info"
    and "returns (HasOriginalDexFiles env d a) has_dex"
  shows "returns (GivenOatFileStatus env d f a)
           (if IsConcurrentCopying f \<noteq> kUseReadBarrier env then kOatCannotOpen
            else if checksums_differ required (candidate_checksums env f) then kOatDexOutOfDate
            else if boot_image_gate_rejects env f image_info has_dex
              then kOatBootImageOutOfDate
            else if IsAotCompilationEnabled env (GetCompilerFilter f) \<and> \<not> IsPic f
                    \<and> (case image_info of
                          None \<Rightarrow> True
                        | Some ii \<Rightarrow>
                            GetImageFileLocationOatDataBegin f \<noteq> oat_data_begin ii
                            \<or> GetImagePatchDelta f \<noteq> patch_delta ii)
              then kOatRelocationOutOfDate
            else kOatUpToDate)"
proof -
  have "required = required_checksums_value env d a"
    using returns_unique [OF assms(2) returns_GetRequiredDexChecksums [OF assms(1)]] .
  moreover have "image_info = image_value env d a"
    using assms(3) fst_GetImageInfo [of env d a] by simp
  moreover have "has_dex = has_dex_value env d a"
    using returns_unique [OF assms(4) returns_HasOriginalDexFiles [OF assms(1)]] .
  ultimately have "returns (GivenOatFileStatus env d f a)
                     (freshness_spec env f required image_info has_dex)"
    using returns_GivenOatFileStatus [OF assms(1), of env d f] by simp
  then show ?thesis
    unfolding freshness_spec_def relocation_gate_rejects_def .
qed

theorem GivenOatFileStatus_gates_witness:
  "\<not> file_released_m (odex_m sample_assistant)
   \<and> returns (GetRequiredDexChecksums sample_env sample_disk sample_assistant) (Some [0xABCD])
   \<and> fst (GetImageInfo sample_env sample_disk sample_assistant)
       = Some \<lparr>location = ''/boot.art'', oat_checksum = 0x1111,
                oat_data_begin = 0x70000000, patch_delta = 0\<rparr>
   \<and> returns (HasOriginalDexFiles sample_env sample_disk sample_assistant) True
   \<and> returns (GivenOatFileStatus sample_env sample_disk (sample_oat_file False True)
                sample_assistant) kOatUpToDate
   \<and> returns (GivenOatFileStatus sample_env sample_disk
                ((sample_oat_file False True)\<lparr>GetVdexFile := \<lparr>vdex_checksums = [0x1234]\<rparr>\<rparr>)
                sample_assistant) kOatDexOutOfDate"
proof -
  have h1: "\<not> file_released_m (odex_m sample_assistant)" by (rule sample_not_released)
  have h2: "returns (GetRequiredDexChecksums sample_env sample_disk sample_assistant)
              (Some [0xABCD])"
    using returns_GetRequiredDexChecksums [OF h1, of sample_env sample_disk]
    by (simp add: eval_defs sample_defs sample_disk_def)
  have h3: "fst (GetImageInfo sample_env sample_disk sample_assistant)
       = Some \<lparr>location = ''/boot.art'', oat_checksum = 0x1111,
                oat_data_begin = 0x70000000, patch_delta = 0\<rparr>"
    by (simp add: fst_GetImageInfo eval_defs sample_defs sample_disk_def)
  have h4: "returns (HasOriginalDexFiles sample_env sample_disk sample_assistant) True"
    using returns_HasOriginalDexFiles [OF h1, of sample_env sample_disk]
    by (simp add: eval_defs sample_defs sample_disk_def)
  show ?thesis
    using h1 h2 h3 h4
      GivenOatFileStatus_gates [OF h1 h2 h3 h4, of "sample_oat_file False True"]
      GivenOatFileStatus_gates [OF h1 h2 h3 h4,
        of "(sample_oat_file False True)\<lparr>GetVdexFile := \<lparr>vdex_checksums = [0x1234]\<rparr>\<rparr>"]
    by (simp add: eval_defs sample_defs)
qed

text \<open>
  C5. In the boot-image gate, for a candidate that passed the first two gates and whose
  compiler filter depends on the image checksum: without boot image info the status is
  \<open>kOatBootImageOutOfDate\<close> if and only if the original dex files are available, and
  without them the candidate is accepted, its status being the relocation gate's; with boot
  image info whose checksum differs from the one the candidate records, the status is
  \<open>kOatBootImageOutOfDate\<close>.
\<close>

theorem boot_image_gate:
  assumes "\<not> file_released_m (odex_m a)"
    and "IsConcurrentCopying f = kUseReadBarrier env"
    and "returns (GetRequiredDexChecksums env d a) required"
    and "\<not> checksums_differ required (candidate_checksums env f)"
    and "DependsOnImageChecksum env (GetCompilerFilter f)"
    and "fst (GetImageInfo env d a) = image_info"
    and "returns (HasOriginalDexFiles env d a) has_dex"
  shows "(image_info = None \<longrightarrow>
            (returns (GivenOatFileStatus env d f a) kOatBootImageOutOfDate \<longleftrightarrow> has_dex)
            \<and> (\<not> has_dex \<longrightarrow>
                 returns (GivenOatFileStatus env d f a)
                   (if IsAotCompilationEnabled env (GetCompilerFilter f) \<and> \<not> IsPic f
                    then kOatRelocationOutOfDate else kOatUpToDate)))
         \<and> (\<forall>ii. image_info = Some ii
                  \<and> GetImageFileLocationOatChecksum f \<noteq> oat_checksum ii \<longrightarrow>
                returns (GivenOatFileStatus env d f a) kOatBootImageOutOfDate)"
proof -
  have 1: "required = required_checksums_value env d a"
    using returns_unique [OF assms(3) returns_GetRequiredDexChecksums [OF assms(1)]] .
  have 2: "image_info = image_value env d a"
    using assms(6) fst_GetImageInfo [of env d a] by simp
  have 3: "has_dex = has_dex_value env d a"
    using returns_unique [OF assms(7) returns_HasOriginalDexFiles [OF assms(1)]] .
  have r: "returns (GivenOatFileStatus env d f a)
             (freshness_spec env f required image_info has_dex)"
    using returns_GivenOatFileStatus [OF assms(1), of env d f] by (simp add: 1 2 3)
  have none: "freshness_spec env f required None h
                = (if h then kOatBootImageOutOfDate
                   else if IsAotCompilationEnabled env (GetCompilerFilter f) \<and> \<not> IsPic f
                     then kOatRelocationOutOfDate else kOatUpToDate)" for h
    using assms(2,4,5)
    by (simp add: freshness_spec_def boot_image_gate_rejects_def relocation_gate_rejects_def)
  have some: "freshness_spec env f required (Some ii) h = kOatBootImageOutOfDate"
    if "GetImageFileLocationOatChecksum f \<noteq> oat_checksum ii" for ii h
    using assms(2,4,5) that by (simp add: freshness_spec_def boot_image_gate_rejects_def)
  show ?thesis
  proof (intro conjI impI allI)
    assume n: "image_info = None"
    show "returns (GivenOatFileStatus env d f a) kOatBootImageOutOfDate \<longleftrightarrow> has_dex"
    proof
      assume "returns (GivenOatFileStatus env d f a) kOatBootImageOutOfDate"
      then have "freshness_spec env f required None has_dex = kOatBootImageOutOfDate"
        using r n returns_unique by fastforce
      then show has_dex by (simp add: none split: if_splits)
    next
      assume has_dex
      then show "returns (GivenOatFileStatus env d f a) kOatBootImageOutOfDate"
        using r n by (simp add: none)
    qed
  next
    assume "image_info = None" and "\<not> has_dex"
    then show "returns (GivenOatFileStatus env d f a)
                   (if IsAotCompilationEnabled env (GetCompilerFilter f) \<and> \<not> IsPic f
                    then kOatRelocationOutOfDate else kOatUpToDate)"
      using r by (simp add: none)
  next
    fix ii
    assume "image_info = Some ii \<and> GetImageFileLocationOatChecksum f \<noteq> oat_checksum ii"
    then show "returns (GivenOatFileStatus env d f a) kOatBootImageOutOfDate"
      using r some [of ii] by simp
  qed
qed

theorem boot_image_gate_witness:
  "\<not> file_released_m (odex_m sample_assistant)
   \<and> IsConcurrentCopying (sample_oat_file False True) = kUseReadBarrier sample_env
   \<and> returns (GetRequiredDexChecksums sample_env no_image_disk sample_assistant)
       (Some [0xABCD])
   \<and> \<not> checksums_differ (Some [0xABCD])
         (candidate_checksums sample_env (sample_oat_file False True))
   \<and> DependsOnImageChecksum sample_env (GetCompilerFilter (sample_oat_file False True))
   \<and> fst (GetImageInfo sample_env no_image_disk sample_assistant) = None
   \<and> returns (HasOriginalDexFiles sample_env no_image_disk sample_assistant) False
   \<and> \<not> returns (GivenOatFileStatus sample_env no_image_disk (sample_oat_file False True)
                  sample_assistant) kOatBootImageOutOfDate
   \<and> returns (GivenOatFileStatus sample_env no_image_disk (sample_oat_file False True)
                sample_assistant) kOatRelocationOutOfDate"
proof -
  have h1: "\<not> file_released_m (odex_m sample_assistant)" by (rule sample_not_released)
  have h2: "IsConcurrentCopying (sample_oat_file False True) = kUseReadBarrier sample_env"
    by (simp add: sample_defs)
  have h3: "returns (GetRequiredDexChecksums sample_env no_image_disk sample_assistant)
              (Some [0xABCD])"
    using returns_GetRequiredDexChecksums [OF h1, of sample_env no_image_disk]
    by (simp add: eval_defs sample_defs no_image_disk_def)
  have h4: "\<not> checksums_differ (Some [0xABCD])
               (candidate_checksums sample_env (sample_oat_file False True))"
    by (simp add: eval_defs sample_defs)
  have h5: "DependsOnImageChecksum sample_env (GetCompilerFilter (sample_oat_file False True))"
    by (simp add: sample_defs)
  have h6: "fst (GetImageInfo sample_env no_image_disk sample_assistant) = None"
    by (simp add: fst_GetImageInfo eval_defs sample_defs no_image_disk_def)
  have h7: "returns (HasOriginalDexFiles sample_env no_image_disk sample_assistant) False"
    using returns_HasOriginalDexFiles [OF h1, of sample_env no_image_disk]
    by (simp add: eval_defs sample_defs no_image_disk_def)
  show ?thesis
    using h1 h2 h3 h4 h5 h6 h7 boot_image_gate [OF h1 h2 h3 h4 h5 h6 h7]
    by (simp add: sample_defs)
qed

text \<open>
  C6. When the candidate's oat file cannot be opened, \<open>Status\<close> (computing the status, not
  returning a cached one) looks at the vdex file: \<open>kOatCannotOpen\<close> if the vdex file does
  not open either, \<open>kOatDexOutOfDate\<close> if its checksums differ from the required ones in
  count or at an index, \<open>kOatBootImageOutOfDate\<close> if they match. Without required checksums
  nothing is compared and the checksums count as matching.
\<close>

theorem Status_vdex_fallback:
  assumes "safe a"
    and "\<not> status_attempted_m (info r a)"
    and "returns (OatFileInfo_GetFile env d r a) None"
    and "returns (GetRequiredDexChecksums env d a) required"
  shows "returns (OatFileInfo_Status env d r a)
           (case VdexFile_Open env d (GetVdexFilename env (filename_m (info r a))) of
              None \<Rightarrow> kOatCannotOpen
            | Some vdex \<Rightarrow>
                (if checksums_differ required (map Some (vdex_checksums vdex))
                 then kOatDexOutOfDate else kOatBootImageOutOfDate))"
proof -
  have 1: "file_value env d r a = None"
    using returns_unique [OF returns_GetFile [OF assms(1)] assms(3)] .
  have 2: "required = required_checksums_value env d a"
    using returns_unique [OF assms(4)
        returns_GetRequiredDexChecksums [OF safe_released [OF assms(1), of Odex, simplified]]] .
  have "status_value env d r a
          = vdex_only_spec (VdexFile_Open env d (GetVdexFilename env (filename_m (info r a))))
              required"
    using assms(2) 1 2 by (simp add: status_value_def)
  then show ?thesis
    using returns_Status [OF assms(1), of env d r] by (simp add: vdex_only_spec_def)
qed

theorem Status_vdex_fallback_witness:
  "safe sample_assistant
   \<and> \<not> status_attempted_m (info Odex sample_assistant)
   \<and> returns (OatFileInfo_GetFile sample_env vdex_only_disk Odex sample_assistant) None
   \<and> returns (GetRequiredDexChecksums sample_env vdex_only_disk sample_assistant)
       (Some [0xABCD])
   \<and> returns (OatFileInfo_Status sample_env vdex_only_disk Odex sample_assistant)
       kOatBootImageOutOfDate"
proof -
  have h1: "safe sample_assistant" by (rule sample_safe)
  have h2: "\<not> status_attempted_m (info Odex sample_assistant)"
    by (simp add: sample_defs)
  have h3: "returns (OatFileInfo_GetFile sample_env vdex_only_disk Odex sample_assistant) None"
    using returns_GetFile [OF h1, of sample_env vdex_only_disk Odex]
    by (simp add: eval_defs sample_defs vdex_only_disk_def)
  have h4: "returns (GetRequiredDexChecksums sample_env vdex_only_disk sample_assistant)
              (Some [0xABCD])"
    using returns_GetRequiredDexChecksums [OF sample_not_released, of sample_env vdex_only_disk]
    by (simp add: eval_defs sample_defs vdex_only_disk_def)
  show ?thesis
    using h1 h2 h3 h4 Status_vdex_fallback [OF h1 h2 h3 h4]
    by (simp add: eval_defs sample_defs vdex_only_disk_def)
qed

section \<open>The regeneration decision\<close>

text \<open>
  C2. \<open>GetDexOptNeeded\<close> on a candidate returns the first matching case of the decision
  table, where "filter okay" is \<open>filter_ok_spec\<close> on the candidate's file, the status is
  what \<open>Status\<close> returns and the availability of the original dex files is what
  \<open>HasOriginalDexFiles\<close> returns.
\<close>

theorem OatFileInfo_GetDexOptNeeded_table:
  assumes "safe a"
    and "returns (OatFileInfo_GetFile env d r a) candidate"
    and "returns (OatFileInfo_Status env d r a) st"
    and "returns (HasOriginalDexFiles env d a) has_dex"
  shows "returns (OatFileInfo_GetDexOptNeeded env d r target profile_changed a)
           (if filter_ok_spec env candidate target profile_changed \<and> st = kOatUpToDate
              then kNoDexOptNeeded
            else if filter_ok_spec env candidate target profile_changed
                    \<and> \<not> IsAotCompilationEnabled env target \<and> st = kOatRelocationOutOfDate
              then kNoDexOptNeeded
            else if filter_ok_spec env candidate target profile_changed
                    \<and> st = kOatRelocationOutOfDate
              then kDex2OatForRelocation
            else if st = kOatRelocationOutOfDate \<or> st = kOatUpToDate then kDex2OatForFilter
            else if st = kOatBootImageOutOfDate then kDex2OatForBootImage
            else if has_dex then kDex2OatFromScratch
            else kNoDexOptNeeded)"
proof -
  have 1: "candidate = file_value env d r a"
    using returns_unique [OF assms(2) returns_GetFile [OF assms(1)]] .
  have 2: "st = status_value env d r a"
    using returns_unique [OF assms(3) returns_Status [OF assms(1)]] .
  have 3: "has_dex = has_dex_value env d a"
    using returns_unique [OF assms(4)
        returns_HasOriginalDexFiles [OF safe_released [OF assms(1), of Odex, simplified]]] .
  have "returns (OatFileInfo_GetDexOptNeeded env d r target profile_changed a)
          (dexopt_needed_spec (filter_ok_spec env candidate target profile_changed)
             (IsAotCompilationEnabled env target) st has_dex)"
    using returns_OatFileInfo_GetDexOptNeeded [OF assms(1), of env d r target profile_changed]
    by (simp add: 1 2 3)
  then show ?thesis unfolding dexopt_needed_spec_def usable_def .
qed

theorem OatFileInfo_GetDexOptNeeded_table_witness:
  "safe sample_assistant
   \<and> returns (OatFileInfo_GetFile sample_env sample_disk Oat sample_assistant)
       (Some (sample_oat_file False True))
   \<and> returns (OatFileInfo_Status sample_env sample_disk Oat sample_assistant) kOatUpToDate
   \<and> returns (HasOriginalDexFiles sample_env sample_disk sample_assistant) True
   \<and> returns (OatFileInfo_GetDexOptNeeded sample_env sample_disk Oat 3 False sample_assistant)
       kNoDexOptNeeded
   \<and> returns (OatFileInfo_GetDexOptNeeded sample_env sample_disk Oat 4 False sample_assistant)
       kDex2OatForFilter"
proof -
  have h1: "safe sample_assistant" by (rule sample_safe)
  have h2: "returns (OatFileInfo_GetFile sample_env sample_disk Oat sample_assistant)
              (Some (sample_oat_file False True))"
    using returns_GetFile [OF h1, of sample_env sample_disk Oat]
    by (simp add: eval_defs sample_defs sample_disk_def)
  have h3: "returns (OatFileInfo_Status sample_env sample_disk Oat sample_assistant)
              kOatUpToDate"
    using returns_Status [OF h1, of sample_env sample_disk Oat]
    by (simp add: eval_defs sample_defs sample_disk_def)
  have h4: "returns (HasOriginalDexFiles sample_env sample_disk sample_assistant) True"
    using returns_HasOriginalDexFiles [OF sample_not_released, of sample_env sample_disk]
    by (simp add: eval_defs sample_defs sample_disk_def)
  show ?thesis
    using h1 h2 h3 h4
      OatFileInfo_GetDexOptNeeded_table [OF h1 h2 h3 h4, of 3 False]
      OatFileInfo_GetDexOptNeeded_table [OF h1 h2 h3 h4, of 4 False]
    by (simp add: filter_ok_spec_def sample_defs)
qed

section \<open>The candidate selector\<close>

text \<open>
  C3. \<open>GetBestInfo\<close> returns the odex candidate if the dex file's directory is writable;
  otherwise the oat candidate if its status is usable; else the odex candidate if its status
  is \<open>kOatUpToDate\<close>; else the oat candidate if the original dex files are available; else
  the odex candidate unless its status is \<open>kOatCannotOpen\<close>, in which case the oat
  candidate. In particular, with the directory not writable and the oat candidate's status
  \<open>kOatUpToDate\<close>, the oat candidate is returned.
\<close>

theorem GetBestInfo_policy:
  assumes "safe a"
    and "returns (OatFileStatus env d a) oat_status"
    and "returns (OdexFileStatus env d a) odex_status"
    and "returns (HasOriginalDexFiles env d a) has_dex"
  shows "returns (GetBestInfo env d a)
           (if dex_parent_writable_m a then Odex
            else if oat_status = kOatRelocationOutOfDate \<or> oat_status = kOatUpToDate then Oat
            else if odex_status = kOatUpToDate then Odex
            else if has_dex then Oat
            else if odex_status = kOatCannotOpen then Oat
            else Odex)
         \<and> (\<not> dex_parent_writable_m a \<and> oat_status = kOatUpToDate \<longrightarrow>
              returns (GetBestInfo env d a) Oat)"
proof -
  have 1: "oat_status = status_value env d Oat a"
    using returns_unique [OF assms(2) [unfolded OatFileStatus_def] returns_Status [OF assms(1)]] .
  have 2: "odex_status = status_value env d Odex a"
    using returns_unique [OF assms(3) [unfolded OdexFileStatus_def] returns_Status [OF assms(1)]] .
  have 3: "has_dex = has_dex_value env d a"
    using returns_unique [OF assms(4)
        returns_HasOriginalDexFiles [OF safe_released [OF assms(1), of Odex, simplified]]] .
  have r: "returns (GetBestInfo env d a)
             (best_info_spec (dex_parent_writable_m a) oat_status odex_status has_dex)"
    using returns_GetBestInfo [OF assms(1), of env d] by (simp add: 1 2 3)
  have "returns (GetBestInfo env d a) Oat"
    if "\<not> dex_parent_writable_m a" and "oat_status = kOatUpToDate"
    using r that by (simp add: best_info_spec_def usable_def)
  moreover note r [unfolded best_info_spec_def usable_def]
  ultimately show ?thesis by blast
qed

theorem GetBestInfo_policy_witness:
  "safe sample_assistant
   \<and> returns (OatFileStatus sample_env sample_disk sample_assistant) kOatUpToDate
   \<and> returns (OdexFileStatus sample_env sample_disk sample_assistant) kOatCannotOpen
   \<and> returns (HasOriginalDexFiles sample_env sample_disk sample_assistant) True
   \<and> \<not> dex_parent_writable_m sample_assistant
   \<and> returns (GetBestInfo sample_env sample_disk sample_assistant) Oat"
proof -
  have h1: "safe sample_assistant" by (rule sample_safe)
  have h2: "returns (OatFileStatus sample_env sample_disk sample_assistant) kOatUpToDate"
    using returns_Status [OF h1, of sample_env sample_disk Oat]
    by (simp add: OatFileStatus_def eval_defs sample_defs sample_disk_def)
  have h3: "returns (OdexFileStatus sample_env sample_disk sample_assistant) kOatCannotOpen"
    using returns_Status [OF h1, of sample_env sample_disk Odex]
    by (simp add: OdexFileStatus_def eval_defs sample_defs sample_disk_def)
  have h4: "returns (HasOriginalDexFiles sample_env sample_disk sample_assistant) True"
    using returns_HasOriginalDexFiles [OF sample_not_released, of sample_env sample_disk]
    by (simp add: eval_defs sample_defs sample_disk_def)
  have h5: "\<not> dex_parent_writable_m sample_assistant" by (simp add: sample_defs)
  show ?thesis
    using h1 h2 h3 h4 h5 GetBestInfo_policy [OF h1 h2 h3 h4] by simp
qed

text \<open>
  C8, as stated, fails: the selection also depends on whether the original dex files are
  available. With the dex file's directory not writable, the oat candidate not openable and
  the odex candidate \<open>kOatBootImageOutOfDate\<close> (only its vdex file exists), the oat
  candidate is selected when the dex file has its dex code and the odex candidate when the dex
  code is stripped.
\<close>

theorem GetBestInfo_depends_on_dex_files:
  "\<not> dex_parent_writable_m sample_assistant
   \<and> returns (OatFileStatus sample_env vdex_only_disk sample_assistant) kOatCannotOpen
   \<and> returns (OatFileStatus sample_env stripped_disk sample_assistant) kOatCannotOpen
   \<and> returns (OdexFileStatus sample_env vdex_only_disk sample_assistant) kOatBootImageOutOfDate
   \<and> returns (OdexFileStatus sample_env stripped_disk sample_assistant) kOatBootImageOutOfDate
   \<and> returns (GetBestInfo sample_env vdex_only_disk sample_assistant) Oat
   \<and> returns (GetBestInfo sample_env stripped_disk sample_assistant) Odex"
proof -
  have "returns (OatFileStatus sample_env vdex_only_disk sample_assistant) kOatCannotOpen"
    using returns_Status [OF sample_safe, of sample_env vdex_only_disk Oat]
    by (simp add: OatFileStatus_def eval_defs sample_defs vdex_only_disk_def)
  moreover
  have "returns (OatFileStatus sample_env stripped_disk sample_assistant) kOatCannotOpen"
    using returns_Status [OF sample_safe, of sample_env stripped_disk Oat]
    by (simp add: OatFileStatus_def eval_defs sample_defs stripped_disk_def)
  moreover
  have "returns (OdexFileStatus sample_env vdex_only_disk sample_assistant)
          kOatBootImageOutOfDate"
    using returns_Status [OF sample_safe, of sample_env vdex_only_disk Odex]
    by (simp add: OdexFileStatus_def eval_defs sample_defs vdex_only_disk_def)
  moreover
  have "returns (OdexFileStatus sample_env stripped_disk sample_assistant)
          kOatBootImageOutOfDate"
    using returns_Status [OF sample_safe, of sample_env stripped_disk Odex]
    by (simp add: OdexFileStatus_def eval_defs sample_defs stripped_disk_def)
  moreover
  have "returns (GetBestInfo sample_env vdex_only_disk sample_assistant) Oat"
    using returns_GetBestInfo [OF sample_safe, of sample_env vdex_only_disk]
    by (simp add: best_info_spec_def usable_def eval_defs sample_defs vdex_only_disk_def)
  moreover
  have "returns (GetBestInfo sample_env stripped_disk sample_assistant) Odex"
    using returns_GetBestInfo [OF sample_safe, of sample_env stripped_disk]
    by (simp add: best_info_spec_def usable_def eval_defs sample_defs stripped_disk_def)
  moreover have "\<not> dex_parent_writable_m sample_assistant" by (simp add: sample_defs)
  ultimately show ?thesis by blast
qed

text \<open>
  C8, amended. The selection is a function of the writability of the dex file's directory,
  the two candidates' statuses and the availability of the original dex files: two
  evaluations in which these four agree select the same candidate. A repeated call on the
  assistant a call has left selects the same candidate again.
\<close>

theorem GetBestInfo_deterministic:
  assumes "safe a" and "safe a'"
    and "dex_parent_writable_m a = dex_parent_writable_m a'"
    and "returns (OatFileStatus env d a) oat_status"
    and "returns (OatFileStatus env' d' a') oat_status"
    and "returns (OdexFileStatus env d a) odex_status"
    and "returns (OdexFileStatus env' d' a') odex_status"
    and "returns (HasOriginalDexFiles env d a) has_dex"
    and "returns (HasOriginalDexFiles env' d' a') has_dex"
  shows "(\<exists>r. returns (GetBestInfo env d a) r \<and> returns (GetBestInfo env' d' a') r)
         \<and> (\<forall>r a1. GetBestInfo env d a = Some (r, a1) \<longrightarrow> returns (GetBestInfo env d a1) r)"
proof
  have v: "oat_status = status_value env d Oat a" "odex_status = status_value env d Odex a"
    "has_dex = has_dex_value env d a"
    using returns_unique [OF assms(4) [unfolded OatFileStatus_def] returns_Status [OF assms(1)]]
      returns_unique [OF assms(6) [unfolded OdexFileStatus_def] returns_Status [OF assms(1)]]
      returns_unique [OF assms(8)
        returns_HasOriginalDexFiles [OF safe_released [OF assms(1), of Odex, simplified]]]
    by simp_all
  have v': "oat_status = status_value env' d' Oat a'" "odex_status = status_value env' d' Odex a'"
    "has_dex = has_dex_value env' d' a'"
    using returns_unique [OF assms(5) [unfolded OatFileStatus_def] returns_Status [OF assms(2)]]
      returns_unique [OF assms(7) [unfolded OdexFileStatus_def] returns_Status [OF assms(2)]]
      returns_unique [OF assms(9)
        returns_HasOriginalDexFiles [OF safe_released [OF assms(2), of Odex, simplified]]]
    by simp_all
  show "\<exists>r. returns (GetBestInfo env d a) r \<and> returns (GetBestInfo env' d' a') r"
    using returns_GetBestInfo [OF assms(1), of env d] returns_GetBestInfo [OF assms(2), of env' d']
    by (auto simp: v [symmetric] v' [symmetric] assms(3))
next
  show "\<forall>r a1. GetBestInfo env d a = Some (r, a1) \<longrightarrow> returns (GetBestInfo env d a1) r"
  proof (intro allI impI)
    fix r a1
    assume g: "GetBestInfo env d a = Some (r, a1)"
    obtain a2 where g2: "GetBestInfo env d a
                = Some (best_info_spec (dex_parent_writable_m a) (status_value env d Oat a)
                          (status_value env d Odex a) (has_dex_value env d a), a2)"
      and v2: "view env d a2 = view env d a"
      using GetBestInfo_sem [OF assms(1), of env d] by blast
    have r: "r = best_info_spec (dex_parent_writable_m a) (status_value env d Oat a)
                          (status_value env d Odex a) (has_dex_value env d a)"
      and a1: "a1 = a2"
      using g g2 by simp_all
    have s1: "safe a1" using assms(1) view_values(7) [OF v2] a1 by simp
    show "returns (GetBestInfo env d a1) r"
      using returns_GetBestInfo [OF s1, of env d] view_values(1,4) [OF v2]
        frame_fields(5) [OF view_values(6) [OF v2]]
      by (simp add: r a1)
  qed
qed

theorem GetBestInfo_deterministic_witness:
  "safe sample_assistant
   \<and> dex_parent_writable_m sample_assistant = dex_parent_writable_m sample_assistant
   \<and> returns (OatFileStatus sample_env sample_disk sample_assistant) kOatUpToDate
   \<and> returns (OdexFileStatus sample_env sample_disk sample_assistant) kOatCannotOpen
   \<and> returns (HasOriginalDexFiles sample_env sample_disk sample_assistant) True
   \<and> (\<exists>r a1. GetBestInfo sample_env sample_disk sample_assistant = Some (r, a1)
              \<and> returns (GetBestInfo sample_env sample_disk a1) r)"
proof -
  have h1: "safe sample_assistant" by (rule sample_safe)
  have h2: "returns (OatFileStatus sample_env sample_disk sample_assistant) kOatUpToDate"
    using returns_Status [OF h1, of sample_env sample_disk Oat]
    by (simp add: OatFileStatus_def eval_defs sample_defs sample_disk_def)
  have h3: "returns (OdexFileStatus sample_env sample_disk sample_assistant) kOatCannotOpen"
    using returns_Status [OF h1, of sample_env sample_disk Odex]
    by (simp add: OdexFileStatus_def eval_defs sample_defs sample_disk_def)
  have h4: "returns (HasOriginalDexFiles sample_env sample_disk sample_assistant) True"
    using returns_HasOriginalDexFiles [OF sample_not_released, of sample_env sample_disk]
    by (simp add: eval_defs sample_defs sample_disk_def)
  have "\<exists>r a1. GetBestInfo sample_env sample_disk sample_assistant = Some (r, a1)"
    using GetBestInfo_sem [OF h1, of sample_env sample_disk] by blast
  then show ?thesis
    using h1 h2 h3 h4 GetBestInfo_deterministic [OF h1 h1 refl h2 h2 h3 h3 h4 h4]
    by blast
qed

lemma GetDexOptNeeded_sem:
  assumes safe: "safe a"
  shows "\<exists>a'. GetDexOptNeeded env d target profile_changed a
                = Some (let r = best_info_spec (dex_parent_writable_m a)
                                  (status_value env d Oat a) (status_value env d Odex a)
                                  (has_dex_value env d a);
                            n = dexopt_needed_spec
                                  (filter_ok_spec env (file_value env d r a) target
                                     profile_changed)
                                  (IsAotCompilationEnabled env target)
                                  (status_value env d r a) (has_dex_value env d a)
                        in if is_oat_location_m (info r a) \<or> n = kDex2OatFromScratch
                           then DexOptNeeded_value env n else - DexOptNeeded_value env n, a')
           \<and> view env d a' = view env d a"
proof -
  define r where "r = best_info_spec (dex_parent_writable_m a)
                                  (status_value env d Oat a) (status_value env d Odex a)
                                  (has_dex_value env d a)"
  define n where "n = dexopt_needed_spec
                                  (filter_ok_spec env (file_value env d r a) target
                                     profile_changed)
                                  (IsAotCompilationEnabled env target)
                                  (status_value env d r a) (has_dex_value env d a)"
  obtain a1 where g1: "GetBestInfo env d a = Some (r, a1)"
    and v1: "view env d a1 = view env d a"
    using GetBestInfo_sem [OF safe, of env d] by (auto simp: r_def)
  have s1: "safe a1" using safe view_values(7) [OF v1] by simp
  obtain a2 where g2: "OatFileInfo_GetDexOptNeeded env d r target profile_changed a1
                         = Some (n, a2)"
    and v2: "view env d a2 = view env d a"
    using OatFileInfo_GetDexOptNeeded_sem [OF s1, of env d r target profile_changed]
      v1 view_values(1,2,4) [OF v1]
    by (auto simp: n_def)
  have loc: "is_oat_location_m (info r a2) = is_oat_location_m (info r a)"
    using frame_fields(4) [OF view_values(6) [OF v2]] .
  show ?thesis
    using g1 g2 v2 loc
    by (simp add: GetDexOptNeeded_def Let_def r_def [symmetric] n_def [symmetric])
qed

lemma returns_GetDexOptNeeded:
  assumes "safe a"
    and "returns (GetBestInfo env d a) r"
    and "returns (OatFileInfo_GetDexOptNeeded env d r target profile_changed a) n"
  shows "returns (GetDexOptNeeded env d target profile_changed a)
           (if is_oat_location_m (info r a) \<or> n = kDex2OatFromScratch
            then DexOptNeeded_value env n else - DexOptNeeded_value env n)"
proof -
  have 1: "r = best_info_spec (dex_parent_writable_m a)
                                  (status_value env d Oat a) (status_value env d Odex a)
                                  (has_dex_value env d a)"
    using returns_unique [OF assms(2) returns_GetBestInfo [OF assms(1)]] .
  have 2: "n = dexopt_needed_spec
                                  (filter_ok_spec env (file_value env d r a) target
                                     profile_changed)
                                  (IsAotCompilationEnabled env target)
                                  (status_value env d r a) (has_dex_value env d a)"
    using returns_unique [OF assms(3) returns_OatFileInfo_GetDexOptNeeded [OF assms(1)]] .
  show ?thesis
    using GetDexOptNeeded_sem [OF assms(1), of env d target profile_changed]
    unfolding 1 [symmetric] Let_def 2 [symmetric]
    by (auto simp: returns_def)
qed

section \<open>The public regeneration decision\<close>

text \<open>
  C10, as stated, fails where the value is said to be positive: with the enumerators
  numbered from 0, as the header declares them, the decision \<open>kNoDexOptNeeded\<close> of the oat
  candidate is returned as 0.
\<close>

theorem GetDexOptNeeded_zero_for_oat_location:
  "returns (GetBestInfo sample_env sample_disk sample_assistant) Oat
   \<and> is_oat_location_m (info Oat sample_assistant)
   \<and> returns (OatFileInfo_GetDexOptNeeded sample_env sample_disk Oat 3 False sample_assistant)
       kNoDexOptNeeded
   \<and> returns (GetDexOptNeeded sample_env sample_disk 3 False sample_assistant) 0"
proof -
  have h1: "returns (GetBestInfo sample_env sample_disk sample_assistant) Oat"
    using returns_GetBestInfo [OF sample_safe, of sample_env sample_disk]
    by (simp add: best_info_spec_def usable_def eval_defs sample_defs sample_disk_def)
  have h2: "returns (OatFileInfo_GetDexOptNeeded sample_env sample_disk Oat 3 False
              sample_assistant) kNoDexOptNeeded"
    using returns_OatFileInfo_GetDexOptNeeded [OF sample_safe, of sample_env sample_disk Oat 3 False]
    by (simp add: dexopt_needed_spec_def filter_ok_spec_def eval_defs sample_defs sample_disk_def)
  have h3: "is_oat_location_m (info Oat sample_assistant)" by (simp add: sample_defs)
  show ?thesis
    using h1 h2 h3 returns_GetDexOptNeeded [OF sample_safe h1 h2]
    by (simp add: sample_defs)
qed

text \<open>
  C10, amended. The assistant-level \<open>GetDexOptNeeded\<close> returns the value of the best
  candidate's decision unchanged when the best candidate is the oat candidate or the decision
  is \<open>kDex2OatFromScratch\<close>, and negated when the best candidate is the odex candidate and
  the decision is anything else. Where no enumerator has a negative value, the unchanged
  value is not negative and the negated value is not positive, so a negative result names
  the odex candidate and a positive one the oat candidate or \<open>kDex2OatFromScratch\<close>.
\<close>

theorem GetDexOptNeeded_sign:
  assumes "safe a"
    and "is_oat_location_m (oat_m a)" and "\<not> is_oat_location_m (odex_m a)"
    and "\<forall>n. 0 \<le> DexOptNeeded_value env n"
    and "returns (GetBestInfo env d a) r"
    and "returns (OatFileInfo_GetDexOptNeeded env d r target profile_changed a) n"
  shows "(r = Oat \<or> n = kDex2OatFromScratch \<longrightarrow>
            returns (GetDexOptNeeded env d target profile_changed a) (DexOptNeeded_value env n)
            \<and> 0 \<le> DexOptNeeded_value env n)
         \<and> (r = Odex \<and> n \<noteq> kDex2OatFromScratch \<longrightarrow>
              returns (GetDexOptNeeded env d target profile_changed a)
                (- DexOptNeeded_value env n)
              \<and> - DexOptNeeded_value env n \<le> 0)
         \<and> (\<forall>v. returns (GetDexOptNeeded env d target profile_changed a) v \<longrightarrow>
                (v < 0 \<longrightarrow> r = Odex) \<and> (0 < v \<longrightarrow> r = Oat \<or> n = kDex2OatFromScratch))"
proof -
  have loc: "is_oat_location_m (info r a) \<longleftrightarrow> r = Oat"
    using assms(2,3) by (cases r) simp_all
  have r: "returns (GetDexOptNeeded env d target profile_changed a)
           (if r = Oat \<or> n = kDex2OatFromScratch
            then DexOptNeeded_value env n else - DexOptNeeded_value env n)"
    using returns_GetDexOptNeeded [OF assms(1,5,6)] by (simp add: loc)
  have nn: "0 \<le> DexOptNeeded_value env n" using assms(4) by simp
  have odex: "r = Odex" if "r \<noteq> Oat" using that by (cases r) simp_all
  show ?thesis
  proof (intro conjI impI allI)
    fix v
    assume v: "returns (GetDexOptNeeded env d target profile_changed a) v"
    have veq: "v = (if r = Oat \<or> n = kDex2OatFromScratch
            then DexOptNeeded_value env n else - DexOptNeeded_value env n)"
      using returns_unique [OF v r] .
    { assume "v < 0" then show "r = Odex" using veq nn odex by (auto split: if_splits) }
    { assume "0 < v" then show "r = Oat \<or> n = kDex2OatFromScratch"
        using veq nn by (auto split: if_splits) }
  qed (use r nn in \<open>auto\<close>)
qed

theorem GetDexOptNeeded_sign_witness:
  "safe sample_assistant
   \<and> is_oat_location_m (oat_m sample_assistant) \<and> \<not> is_oat_location_m (odex_m sample_assistant)
   \<and> (\<forall>n. 0 \<le> DexOptNeeded_value sample_env n)
   \<and> returns (GetBestInfo sample_env sample_disk sample_assistant) Oat
   \<and> returns (OatFileInfo_GetDexOptNeeded sample_env sample_disk Oat 4 False sample_assistant)
       kDex2OatForFilter
   \<and> returns (GetDexOptNeeded sample_env sample_disk 4 False sample_assistant) 3"
proof -
  have h1: "safe sample_assistant" by (rule sample_safe)
  have h2: "is_oat_location_m (oat_m sample_assistant)" by (simp add: sample_defs)
  have h3: "\<not> is_oat_location_m (odex_m sample_assistant)" by (simp add: sample_defs)
  have h4: "\<forall>n. 0 \<le> DexOptNeeded_value sample_env n"
    by (simp add: sample_defs split: DexOptNeeded.splits)
  have h5: "returns (GetBestInfo sample_env sample_disk sample_assistant) Oat"
    using returns_GetBestInfo [OF sample_safe, of sample_env sample_disk]
    by (simp add: best_info_spec_def usable_def eval_defs sample_defs sample_disk_def)
  have h6: "returns (OatFileInfo_GetDexOptNeeded sample_env sample_disk Oat 4 False
              sample_assistant) kDex2OatForFilter"
    using returns_OatFileInfo_GetDexOptNeeded [OF sample_safe, of sample_env sample_disk Oat 4 False]
    by (simp add: dexopt_needed_spec_def filter_ok_spec_def usable_def eval_defs sample_defs
        sample_disk_def)
  show ?thesis
    using h1 h2 h3 h4 h5 h6 GetDexOptNeeded_sign [OF h1 h2 h3 h4 h5 h6]
    by (simp add: sample_defs)
qed

lemma loaded_mono_refl [simp]: "loaded_mono a a"
  by (simp add: loaded_mono_def)

lemma loaded_mono_trans: "loaded_mono a b \<Longrightarrow> loaded_mono b c \<Longrightarrow> loaded_mono a c"
  by (simp add: loaded_mono_def)

lemma loaded_monoD: "loaded_mono a a' \<Longrightarrow> load_attempted_m (info r a) \<Longrightarrow> load_attempted_m (info r a')"
  by (cases r) (simp_all add: loaded_mono_def)

lemma GetFile_loaded:
  assumes "OatFileInfo_GetFile env d r a = Some (x, a')"
  shows "load_attempted_m (info r a')" and "loaded_mono a a'"
  using assms
  by (cases r; auto simp: GetFile_eq loaded_mono_def split: if_splits)+

lemma GetRequiredDexChecksums_loaded:
  assumes "GetRequiredDexChecksums env d a = Some (x, a')"
  shows "loaded_mono a a'"
proof (cases "required_dex_checksums_attempted_m a")
  case True
  with assms show ?thesis by (simp add: GetRequiredDexChecksums_def)
next
  case False
  show ?thesis
  proof (cases "GetMultiDexChecksums env d (dex_location_m a)")
    case (Some cs)
    with False assms show ?thesis
      by (auto simp: GetRequiredDexChecksums_def Let_def loaded_mono_def)
  next
    case None
    let ?a1 = "a\<lparr>required_dex_checksums_attempted_m := True,
                   required_dex_checksums_found_m := False,
                   cached_required_dex_checksums_m := [],
                   has_original_dex_files_m := False\<rparr>"
    from False None assms obtain f a3 where
      g: "OatFileInfo_GetFile env d Odex ?a1 = Some (f, a3)"
      and a': "a' = (case f of None \<Rightarrow> a3
                     | Some f \<Rightarrow>
                       (let (found, cs) = GetRequiredDexChecksums_loop (oat_dex_files f)
                                            (cached_required_dex_checksums_m a3)
                        in a3\<lparr>required_dex_checksums_found_m := found,
                               cached_required_dex_checksums_m := cs\<rparr>))"
      by (auto simp: GetRequiredDexChecksums_def Let_def bind_eq_Some_conv)
    have "loaded_mono ?a1 a3" using GetFile_loaded(2) [OF g] .
    then have "loaded_mono a a3" by (simp add: loaded_mono_def)
    moreover have "loaded_mono a3 a'"
      by (simp add: a' loaded_mono_def case_prod_unfold Let_def split: option.splits)
    ultimately show ?thesis by (rule loaded_mono_trans)
  qed
qed

lemma GetImageInfo_loaded: "loaded_mono a (snd (GetImageInfo env d a))"
  by (simp add: GetImageInfo_def Let_def loaded_mono_def)

lemma HasOriginalDexFiles_loaded:
  assumes "HasOriginalDexFiles env d a = Some (x, a')"
  shows "loaded_mono a a'"
  using assms GetRequiredDexChecksums_loaded
  by (auto simp: HasOriginalDexFiles_def bind_eq_Some_conv)

lemma DexChecksumUpToDate_vdex_loaded:
  assumes "DexChecksumUpToDate_vdex env d v a = Some (x, a')"
  shows "loaded_mono a a'"
proof -
  from assms obtain y where "GetRequiredDexChecksums env d a = Some (y, a')"
    by (auto simp: DexChecksumUpToDate_vdex_def bind_eq_Some_conv Let_def
        split: option.splits if_splits)
  then show ?thesis by (rule GetRequiredDexChecksums_loaded)
qed

lemma DexChecksumUpToDate_oat_loaded:
  assumes "DexChecksumUpToDate_oat env d f a = Some (x, a')"
  shows "loaded_mono a a'"
proof -
  from assms obtain y where "GetRequiredDexChecksums env d a = Some (y, a')"
    by (auto simp: DexChecksumUpToDate_oat_def bind_eq_Some_conv Let_def
        split: option.splits if_splits)
  then show ?thesis by (rule GetRequiredDexChecksums_loaded)
qed

lemma image_checksum_loaded:
  assumes "GivenOatFileStatus_image_checksum env d f a = Some (x, a')"
  shows "loaded_mono a a'"
proof (cases "DependsOnImageChecksum env (GetCompilerFilter f)")
  case False
  with assms show ?thesis by (simp add: GivenOatFileStatus_image_checksum_def)
next
  case True
  obtain ii a1 where g: "GetImageInfo env d a = (ii, a1)" by (cases "GetImageInfo env d a")
  have m1: "loaded_mono a a1" using GetImageInfo_loaded [of a env d] g by simp
  show ?thesis
  proof (cases ii)
    case None
    with True g assms obtain h where "HasOriginalDexFiles env d a1 = Some (h, a')"
      by (auto simp: GivenOatFileStatus_image_checksum_def bind_eq_Some_conv)
    then show ?thesis using m1 HasOriginalDexFiles_loaded loaded_mono_trans by blast
  next
    case (Some i)
    with True g assms have "a' = a1"
      by (auto simp: GivenOatFileStatus_image_checksum_def)
    then show ?thesis using m1 by simp
  qed
qed

lemma relocation_loaded: "loaded_mono a (snd (GivenOatFileStatus_relocation env d f a))"
  using GetImageInfo_loaded [of a env d]
  by (auto simp: GivenOatFileStatus_relocation_def case_prod_unfold Let_def
      split: option.splits)

lemma GivenOatFileStatus_loaded:
  assumes "GivenOatFileStatus env d f a = Some (x, a')"
  shows "loaded_mono a a'"
proof (cases "IsConcurrentCopying f \<noteq> kUseReadBarrier env")
  case True
  with assms show ?thesis by (simp add: GivenOatFileStatus_def)
next
  case False
  from False assms obtain u a1 where
    g1: "(if kIsVdexEnabled env then DexChecksumUpToDate_vdex env d (GetVdexFile f) a
          else DexChecksumUpToDate_oat env d f a) = Some (u, a1)"
    and rest: "(if \<not> u then Some (kOatDexOutOfDate, a1)
                else do {
                  (image_checksum, a2) \<leftarrow> GivenOatFileStatus_image_checksum env d f a1;
                  (case image_checksum of
                     Some st \<Rightarrow> Some (st, a2)
                   | None \<Rightarrow> Some (GivenOatFileStatus_relocation env d f a2))
                }) = Some (x, a')"
    by (auto simp: GivenOatFileStatus_def bind_eq_Some_conv)
  have m1: "loaded_mono a a1"
    using g1 DexChecksumUpToDate_vdex_loaded DexChecksumUpToDate_oat_loaded
    by (auto split: if_splits)
  show ?thesis
  proof (cases u)
    case False
    with rest m1 show ?thesis by simp
  next
    case True
    with rest obtain g a2 where g2: "GivenOatFileStatus_image_checksum env d f a1 = Some (g, a2)"
      and fin: "(case g of Some st \<Rightarrow> Some (st, a2)
                 | None \<Rightarrow> Some (GivenOatFileStatus_relocation env d f a2)) = Some (x, a')"
      by (auto simp: bind_eq_Some_conv)
    have m2: "loaded_mono a1 a2" using image_checksum_loaded [OF g2] .
    have m3: "loaded_mono a2 a'"
      using fin relocation_loaded [of a2 env d f]
      by (cases g) (auto simp: prod_eq_iff)
    show ?thesis using m1 m2 m3 loaded_mono_trans by blast
  qed
qed

lemma set_status_loaded: "loaded_mono a (set_status r st a)"
  by (cases r) (simp_all add: set_status_def loaded_mono_def)

lemma Status_loaded:
  assumes "OatFileInfo_Status env d r a = Some (st, a')"
    and "status_attempted_m (info r a) \<longrightarrow> load_attempted_m (info r a)"
  shows "load_attempted_m (info r a')"
proof (cases "status_attempted_m (info r a)")
  case True
  with assms show ?thesis by (simp add: OatFileInfo_Status_def)
next
  case False
  let ?a1 = "set_info r ((info r a)\<lparr>status_attempted_m := True\<rparr>) a"
  from False assms(1) obtain f a2 a5 where
    g2: "OatFileInfo_GetFile env d r ?a1 = Some (f, a2)"
    and g5: "(case f of
               None \<Rightarrow>
                 (case VdexFile_Open env d (GetVdexFilename env (filename_m (info r a2))) of
                    None \<Rightarrow> Some (set_status r kOatCannotOpen a2)
                  | Some vdex \<Rightarrow>
                      do {
                        (up_to_date, a3) \<leftarrow> DexChecksumUpToDate_vdex env d vdex a2;
                        Some (set_status r (if up_to_date then kOatBootImageOutOfDate
                                            else kOatDexOutOfDate) a3)
                      })
             | Some file \<Rightarrow>
                 do {
                   (st, a3) \<leftarrow> GivenOatFileStatus env d file a2;
                   Some (set_status r st a3)
                 }) = Some a5"
    and a': "a' = a5"
    by (auto simp: OatFileInfo_Status_def bind_eq_Some_conv)
  have l2: "load_attempted_m (info r a2)" using GetFile_loaded(1) [OF g2] .
  have "loaded_mono a2 a5"
  proof (cases f)
    case None
    show ?thesis
    proof (cases "VdexFile_Open env d (GetVdexFilename env (filename_m (info r a2)))")
      case vn: None
      with None g5 have "a5 = set_status r kOatCannotOpen a2" by simp
      then show ?thesis by (simp add: set_status_loaded)
    next
      case (Some v)
      with None g5 obtain u a3 where g3: "DexChecksumUpToDate_vdex env d v a2 = Some (u, a3)"
        and a5: "a5 = set_status r (if u then kOatBootImageOutOfDate else kOatDexOutOfDate) a3"
        by (auto simp: bind_eq_Some_conv)
      show ?thesis
        unfolding a5
        by (rule loaded_mono_trans [OF DexChecksumUpToDate_vdex_loaded [OF g3] set_status_loaded])
    qed
  next
    case (Some x)
    with g5 obtain s a3 where g3: "GivenOatFileStatus env d x a2 = Some (s, a3)"
      and a5: "a5 = set_status r s a3"
      by (auto simp: bind_eq_Some_conv)
    show ?thesis
      unfolding a5
      by (rule loaded_mono_trans [OF GivenOatFileStatus_loaded [OF g3] set_status_loaded])
  qed
  then show ?thesis using l2 a' loaded_monoD [of a2 a5 r] by simp
qed

lemma loaded_file_value:
  "load_attempted_m (info r a) \<Longrightarrow> file_m (info r a) = file_value env d r a"
  by (simp add: file_value_def)

lemma IsExecutable_loaded:
  assumes "OatFileInfo_IsExecutable env d r a = Some (x, a')"
  shows "load_attempted_m (info r a')"
proof -
  from assms obtain f where "OatFileInfo_GetFile env d r a = Some (f, a')"
    by (auto simp: OatFileInfo_IsExecutable_def bind_eq_Some_conv)
  then show ?thesis by (rule GetFile_loaded(1))
qed

lemma IsUseable_loaded:
  assumes "OatFileInfo_IsUseable env d r a = Some (x, a')"
    and "status_attempted_m (info r a) \<longrightarrow> load_attempted_m (info r a)"
  shows "load_attempted_m (info r a')"
proof -
  from assms(1) obtain s where "OatFileInfo_Status env d r a = Some (s, a')"
    by (auto simp: OatFileInfo_IsUseable_def bind_eq_Some_conv)
  then show ?thesis using assms(2) by (rule Status_loaded)
qed

lemma Status_cached:
  assumes "status_attempted_m (info r a)"
  shows "OatFileInfo_Status env d r a = Some (status_value env d r a, a)"
  using assms by (simp add: OatFileInfo_Status_def status_value_def)

lemma reset_fields:
  "safe (OatFileInfo_Reset r (a\<lparr>load_executable_m := False\<rparr>)) = safe a"
  "\<not> status_attempted_m (info r (OatFileInfo_Reset r (a\<lparr>load_executable_m := False\<rparr>)))"
  "\<not> load_executable_m (OatFileInfo_Reset r (a\<lparr>load_executable_m := False\<rparr>))"
  "file_value env d r (OatFileInfo_Reset r (a\<lparr>load_executable_m := False\<rparr>))
     = (if filename_provided_m (info r a)
        then OatFile_Open env d (filename_m (info r a)) False (dex_location_m a) else None)"
  by (cases r; simp add: OatFileInfo_Reset_def safe_def file_value_def)+

lemma ReleaseFile_fields:
  "fst (OatFileInfo_ReleaseFile r a) = file_m (info r a)"
  "load_executable_m (snd (OatFileInfo_ReleaseFile r a)) = load_executable_m a"
  by (cases r; simp add: OatFileInfo_ReleaseFile_def)+

lemma Status_loaded_mono:
  assumes "OatFileInfo_Status env d r a = Some (st, a')"
  shows "loaded_mono a a'"
proof (cases "status_attempted_m (info r a)")
  case True
  with assms show ?thesis by (simp add: OatFileInfo_Status_def)
next
  case False
  let ?a1 = "set_info r ((info r a)\<lparr>status_attempted_m := True\<rparr>) a"
  from False assms(1) obtain f a2 a5 where
    g2: "OatFileInfo_GetFile env d r ?a1 = Some (f, a2)"
    and g5: "(case f of
               None \<Rightarrow>
                 (case VdexFile_Open env d (GetVdexFilename env (filename_m (info r a2))) of
                    None \<Rightarrow> Some (set_status r kOatCannotOpen a2)
                  | Some vdex \<Rightarrow>
                      do {
                        (up_to_date, a3) \<leftarrow> DexChecksumUpToDate_vdex env d vdex a2;
                        Some (set_status r (if up_to_date then kOatBootImageOutOfDate
                                            else kOatDexOutOfDate) a3)
                      })
             | Some file \<Rightarrow>
                 do {
                   (st, a3) \<leftarrow> GivenOatFileStatus env d file a2;
                   Some (set_status r st a3)
                 }) = Some a5"
    and a': "a' = a5"
    by (auto simp: OatFileInfo_Status_def bind_eq_Some_conv)
  have m1: "loaded_mono a ?a1" by (cases r) (simp_all add: loaded_mono_def)
  have m2: "loaded_mono ?a1 a2" using GetFile_loaded(2) [OF g2] .
  have m5: "loaded_mono a2 a5"
  proof (cases f)
    case None
    show ?thesis
    proof (cases "VdexFile_Open env d (GetVdexFilename env (filename_m (info r a2)))")
      case vn: None
      with None g5 have "a5 = set_status r kOatCannotOpen a2" by simp
      then show ?thesis by (simp add: set_status_loaded)
    next
      case (Some v)
      with None g5 obtain u a3 where g3: "DexChecksumUpToDate_vdex env d v a2 = Some (u, a3)"
        and a5: "a5 = set_status r (if u then kOatBootImageOutOfDate else kOatDexOutOfDate) a3"
        by (auto simp: bind_eq_Some_conv)
      show ?thesis
        unfolding a5
        by (rule loaded_mono_trans [OF DexChecksumUpToDate_vdex_loaded [OF g3] set_status_loaded])
    qed
  next
    case (Some x)
    with g5 obtain s a3 where g3: "GivenOatFileStatus env d x a2 = Some (s, a3)"
      and a5: "a5 = set_status r s a3"
      by (auto simp: bind_eq_Some_conv)
    show ?thesis
      unfolding a5
      by (rule loaded_mono_trans [OF GivenOatFileStatus_loaded [OF g3] set_status_loaded])
  qed
  show ?thesis
    unfolding a' by (rule loaded_mono_trans [OF loaded_mono_trans [OF m1 m2] m5])
qed

lemma status_after_loadD:
  "status_after_load a \<Longrightarrow> status_attempted_m (info r a) \<longrightarrow> load_attempted_m (info r a)"
  by (cases r) (simp_all add: status_after_load_def)

lemma status_after_loadI:
  "(\<And>r. status_attempted_m (info r a) \<Longrightarrow> load_attempted_m (info r a)) \<Longrightarrow>
     status_after_load a"
  using info_simps [of a] unfolding status_after_load_def by metis

lemma Status_keeps_status_after_load:
  assumes "safe a" and "status_after_load a"
    and "OatFileInfo_Status env d r a = Some (st, a')"
  shows "status_after_load a'"
proof (rule status_after_loadI)
  fix r'
  assume at: "status_attempted_m (info r' a')"
  show "load_attempted_m (info r' a')"
  proof (cases "r' = r")
    case True
    then show ?thesis
      using Status_loaded [OF assms(3) status_after_loadD [OF assms(2)]] by simp
  next
    case False
    have "status_attempted_m (info r' a') = status_attempted_m (info r' a)"
      using Status_sem_full [OF assms(1), of env d r] assms(3) False by auto
    then have "load_attempted_m (info r' a)"
      using at status_after_loadD [OF assms(2), of r'] by simp
    then show ?thesis using loaded_monoD [OF Status_loaded_mono [OF assms(3)]] by simp
  qed
qed

lemma HasOriginalDexFiles_keeps_status_after_load:
  assumes "safe a" and "status_after_load a"
    and "HasOriginalDexFiles env d a = Some (h, a')"
  shows "status_after_load a'"
proof (rule status_after_loadI)
  fix r'
  assume at: "status_attempted_m (info r' a')"
  have "raw_status a' = raw_status a"
    using HasOriginalDexFiles_sem [OF safe_released [OF assms(1), of Odex, simplified], of env d]
      assms(3) by auto
  then have "status_attempted_m (info r' a)"
    using at raw_status_fields(1) [of a' a r'] by simp
  then have "load_attempted_m (info r' a)" using status_after_loadD [OF assms(2), of r'] by simp
  then show "load_attempted_m (info r' a')"
    using loaded_monoD [OF HasOriginalDexFiles_loaded [OF assms(3)]] by simp
qed

lemma GetBestInfo_keeps_status_after_load:
  assumes safe: "safe a" and wf: "status_after_load a"
    and best: "GetBestInfo env d a = Some (r, a')"
  shows "status_after_load a' \<and> safe a'"
proof -
  have "view env d a' = view env d a"
    using GetBestInfo_sem [OF safe, of env d] best by auto
  then have s': "safe a'" using safe view_values(7) by blast
  show ?thesis
  proof (cases "dex_parent_writable_m a")
    case True
    with best wf s' show ?thesis by (simp add: GetBestInfo_def)
  next
    case False
    obtain a1 where g1: "OatFileInfo_Status env d Oat a = Some (status_value env d Oat a, a1)"
      and v1: "view env d a1 = view env d a"
      using Status_sem [OF safe, of env d Oat] by blast
    have s1: "safe a1" using safe view_values(7) [OF v1] by simp
    have w1: "status_after_load a1" using Status_keeps_status_after_load [OF safe wf g1] .
    obtain a2 where g2: "OatFileInfo_Status env d Odex a1 = Some (status_value env d Odex a, a2)"
      and v2: "view env d a2 = view env d a"
      using Status_sem [OF s1, of env d Odex] v1 view_values(1) [OF v1] by auto
    have s2: "safe a2" using safe view_values(7) [OF v2] by simp
    have w2: "status_after_load a2" using Status_keeps_status_after_load [OF s1 w1 g2] .
    obtain a3 where g3: "HasOriginalDexFiles env d a2 = Some (has_dex_value env d a, a3)"
      and v3: "view env d a3 = view env d a"
      using HasOriginalDexFiles_view [OF s2, of env d] v2 view_values(4) [OF v2] by auto
    have s3: "safe a3" using safe view_values(7) [OF v3] by simp
    have w3: "status_after_load a3"
      using HasOriginalDexFiles_keeps_status_after_load [OF s2 w2 g3] .
    obtain a4 where g4: "OatFileInfo_Status env d Odex a3 = Some (status_value env d Odex a, a4)"
      and v4: "view env d a4 = view env d a"
      using Status_sem [OF s3, of env d Odex] v3 view_values(1) [OF v3] by auto
    have w4: "status_after_load a4" using Status_keeps_status_after_load [OF s3 w3 g4] .
    have "a' = a1 \<or> a' = a2 \<or> a' = a3 \<or> a' = a4"
      using best False g1 g2 g3 g4
      by (auto simp: GetBestInfo_def OatFileInfo_IsUseable_def split: if_splits)
    then show ?thesis using w1 w2 w3 w4 s' by blast
  qed
qed

section \<open>Releasing the best file\<close>

lemmas run_defs = OatFileInfo_Status_def OatFileInfo_GetFile_def GivenOatFileStatus_def
  DexChecksumUpToDate_vdex_def GetRequiredDexChecksums_def required_dex_checksums_result_def
  DexChecksumUpToDate_vdex_loop.simps GivenOatFileStatus_image_checksum_def GetImageInfo_def
  HasOriginalDexFiles_def GivenOatFileStatus_relocation_def set_status_def Let_def
  OatFileInfo_IsExecutable_def GetRuntimeImageInfo_def

lemma writable_status:
  "OatFileInfo_Status sample_env odex_relocation_disk Odex writable_assistant
     = Some (kOatRelocationOutOfDate, writable_assistant_after_status)"
  by (simp add: run_defs sample_defs writable_assistant_def odex_relocation_disk_def
      writable_assistant_after_status_def)

lemma writable_executable:
  "OatFileInfo_IsExecutable sample_env odex_relocation_disk Odex writable_assistant_after_status
     = Some (True, writable_assistant_after_status)"
  by (simp add: run_defs sample_defs writable_assistant_after_status_def)

lemma executable_reader_status:
  "OatFileInfo_Status executable_reader_env odex_relocation_disk Odex writable_assistant
     = Some (kOatRelocationOutOfDate, writable_assistant_after_status)"
  by (simp add: run_defs sample_defs executable_reader_env_def writable_assistant_def
      odex_relocation_disk_def writable_assistant_after_status_def)

lemma executable_reader_executable:
  "OatFileInfo_IsExecutable executable_reader_env odex_relocation_disk Odex
     writable_assistant_after_status
     = Some (True, writable_assistant_after_status)"
  by (simp add: run_defs sample_defs writable_assistant_after_status_def)

lemma executable_reader_cached:
  "OatFileInfo_Status executable_reader_env odex_relocation_disk Odex
     writable_assistant_after_status
     = Some (kOatRelocationOutOfDate, writable_assistant_after_status)"
  by (simp add: OatFileInfo_Status_def writable_assistant_after_status_def)




lemmas disk_defs = stat_def CreateEmptyFile_def fchmod_def Erase_def FlushCloseOrErase_def
  unlink_def Dex2Oat_def ImageLocation_def S_IRUSR_def S_IWUSR_def S_IRGRP_def S_IROTH_def
  rfind_def

lemma sample_target: "GetRuntimeCompilerFilterOption sample_env = Some 4"
  by (simp add: GetRuntimeCompilerFilterOption_def starts_with_def sample_defs)

lemma sample_speed_target:
  "GetRuntimeCompilerFilterOption (sample_env\<lparr>GetCompilerOptions := [''--compiler-filter=speed'']\<rparr>)
     = Some 3"
  by (simp add: GetRuntimeCompilerFilterOption_def starts_with_def sample_defs)

lemma MakeUpToDate_sem:
  assumes safe: "safe a"
    and target: "GetRuntimeCompilerFilterOption env = Some target"
  shows "\<exists>a1. view env d a1 = view env d a
           \<and> MakeUpToDate env d profile_changed a
               = (let r = best_info_spec (dex_parent_writable_m a)
                            (status_value env d Oat a) (status_value env d Odex a)
                            (has_dex_value env d a)
                  in if dexopt_needed_spec
                          (filter_ok_spec env (file_value env d r a) target profile_changed)
                          (IsAotCompilationEnabled env target)
                          (status_value env d r a) (has_dex_value env d a) = kNoDexOptNeeded
                     then Some ((kUpdateSucceeded, d), a1)
                     else GenerateOatFileNoChecks env d r target a1)"
proof -
  define r where "r = best_info_spec (dex_parent_writable_m a)
                                  (status_value env d Oat a) (status_value env d Odex a)
                                  (has_dex_value env d a)"
  define n where "n = dexopt_needed_spec
                                  (filter_ok_spec env (file_value env d r a) target
                                     profile_changed)
                                  (IsAotCompilationEnabled env target)
                                  (status_value env d r a) (has_dex_value env d a)"
  obtain a1 where g1: "GetBestInfo env d a = Some (r, a1)"
    and v1: "view env d a1 = view env d a"
    using GetBestInfo_sem [OF safe, of env d] by (auto simp: r_def)
  have s1: "safe a1" using safe view_values(7) [OF v1] by simp
  obtain a2 where g2: "OatFileInfo_GetDexOptNeeded env d r target profile_changed a1
                         = Some (n, a2)"
    and v2: "view env d a2 = view env d a"
    using OatFileInfo_GetDexOptNeeded_sem [OF s1, of env d r target profile_changed]
      v1 view_values(1,2,4) [OF v1]
    by (auto simp: n_def)
  have "MakeUpToDate env d profile_changed a
          = (if n = kNoDexOptNeeded then Some ((kUpdateSucceeded, d), a2)
             else GenerateOatFileNoChecks env d r target a2)"
    using target g1 g2 by (cases n) (simp_all add: MakeUpToDate_def)
  then show ?thesis
    using v2 unfolding Let_def r_def [symmetric] n_def [symmetric] by blast
qed

section \<open>Regeneration\<close>

text \<open>
  C7, as stated, fails for a target filter the candidate's filter is not okay for: the best
  candidate is up to date, compiled with filter speed, the runtime asks for everything, and
  \<open>MakeUpToDate\<close> runs dex2oat. Here the close of the vdex file fails: the call returns
  \<open>kUpdateFailed\<close>, the oat file that was up to date is truncated and its vdex file is gone.
\<close>

theorem MakeUpToDate_regenerates_up_to_date_file:
  "GetRuntimeCompilerFilterOption sample_env = Some 4
   \<and> returns (GetBestInfo sample_env sample_disk sample_assistant) Oat
   \<and> returns (OatFileInfo_Status sample_env sample_disk Oat sample_assistant) kOatUpToDate
   \<and> returns (MakeUpToDate sample_env sample_disk False sample_assistant)
       (kUpdateFailed,
        [''/a/b.apk'' \<mapsto> Regular 420 [1], ''/boot.art'' \<mapsto> Regular 420 [1],
         ''/c/b.dex'' \<mapsto> Regular 420 []])
   \<and> \<not> returns (MakeUpToDate sample_env sample_disk False sample_assistant)
         (kUpdateSucceeded, sample_disk)"
proof -
  have h1: "returns (GetBestInfo sample_env sample_disk sample_assistant) Oat"
    using returns_GetBestInfo [OF sample_safe, of sample_env sample_disk]
    by (simp add: best_info_spec_def usable_def eval_defs sample_defs sample_disk_def)
  have h2: "returns (OatFileInfo_Status sample_env sample_disk Oat sample_assistant)
              kOatUpToDate"
    using returns_Status [OF sample_safe, of sample_env sample_disk Oat]
    by (simp add: eval_defs sample_defs sample_disk_def)
  obtain a1 where v1: "view sample_env sample_disk a1 = view sample_env sample_disk sample_assistant"
    and m: "MakeUpToDate sample_env sample_disk False sample_assistant
              = GenerateOatFileNoChecks sample_env sample_disk Oat 4 a1"
    using MakeUpToDate_sem [OF sample_safe sample_target, of sample_disk False]
    by (auto simp: best_info_spec_def usable_def dexopt_needed_spec_def filter_ok_spec_def
        eval_defs sample_defs sample_disk_def)
  have fr: "frame a1 = frame sample_assistant" using view_values(6) [OF v1] .
  have flds: "filename_provided_m (info Oat a1)" "filename_m (info Oat a1) = ''/c/b.dex''"
    "is_oat_location_m (info Oat a1)" "dex_location_m a1 = ''/a/b.apk''"
    using frame_fields(2,3,4) [OF fr, of Oat] frame_fields(7) [OF fr]
    by (simp_all add: sample_defs)
  have g: "returns (GenerateOatFileNoChecks sample_env sample_disk Oat 4 a1)
             (kUpdateFailed,
              [''/a/b.apk'' \<mapsto> Regular 420 [1], ''/boot.art'' \<mapsto> Regular 420 [1],
               ''/c/b.dex'' \<mapsto> Regular 420 []])"
    using flds
    by (simp add: GenerateOatFileNoChecks_def disk_defs sample_env_def sample_disk_def
        Let_def returns_def)
  have ne: "(kUpdateFailed,
              [''/a/b.apk'' \<mapsto> Regular 420 [1], ''/boot.art'' \<mapsto> Regular 420 [1],
               ''/c/b.dex'' \<mapsto> Regular (420::32 word) []])
            \<noteq> (kUpdateSucceeded, sample_disk)"
    by simp
  have "\<not> returns (MakeUpToDate sample_env sample_disk False sample_assistant)
         (kUpdateSucceeded, sample_disk)"
    using returns_unique [OF g [folded m]] ne by blast
  then show ?thesis using sample_target h1 h2 g [folded m] by simp
qed

text \<open>
  C7, amended. When the best candidate's status is \<open>kOatUpToDate\<close> and its compiler filter
  is okay for the runtime's target filter and the profile-changed flag, \<open>MakeUpToDate\<close>
  returns \<open>kUpdateSucceeded\<close> and leaves the disk as it was.
\<close>

theorem MakeUpToDate_idempotent:
  assumes "safe a"
    and "GetRuntimeCompilerFilterOption env = Some target"
    and "returns (GetBestInfo env d a) r"
    and "returns (OatFileInfo_Status env d r a) kOatUpToDate"
    and "returns (OatFileInfo_CompilerFilterIsOkay env d r target profile_changed a) True"
  shows "returns (MakeUpToDate env d profile_changed a) (kUpdateSucceeded, d)"
proof -
  have 1: "r = best_info_spec (dex_parent_writable_m a) (status_value env d Oat a)
                 (status_value env d Odex a) (has_dex_value env d a)"
    using returns_unique [OF assms(3) returns_GetBestInfo [OF assms(1)]] .
  have 2: "status_value env d r a = kOatUpToDate"
    using returns_unique [OF assms(4) returns_Status [OF assms(1)]] by simp
  have 3: "filter_ok_spec env (file_value env d r a) target profile_changed"
    using returns_unique [OF assms(5) returns_CompilerFilterIsOkay [OF assms(1)]] by simp
  show ?thesis
    using MakeUpToDate_sem [OF assms(1,2), of d profile_changed]
    unfolding Let_def 1 [symmetric]
    by (auto simp: 2 3 dexopt_needed_spec_def returns_def)
qed

theorem MakeUpToDate_idempotent_witness:
  "safe sample_assistant
   \<and> GetRuntimeCompilerFilterOption
        (sample_env\<lparr>GetCompilerOptions := [''--compiler-filter=speed'']\<rparr>) = Some 3
   \<and> returns (GetBestInfo (sample_env\<lparr>GetCompilerOptions := [''--compiler-filter=speed'']\<rparr>)
                sample_disk sample_assistant) Oat
   \<and> returns (OatFileInfo_Status
                (sample_env\<lparr>GetCompilerOptions := [''--compiler-filter=speed'']\<rparr>)
                sample_disk Oat sample_assistant) kOatUpToDate
   \<and> returns (OatFileInfo_CompilerFilterIsOkay
                (sample_env\<lparr>GetCompilerOptions := [''--compiler-filter=speed'']\<rparr>)
                sample_disk Oat 3 False sample_assistant) True
   \<and> returns (MakeUpToDate (sample_env\<lparr>GetCompilerOptions := [''--compiler-filter=speed'']\<rparr>)
                sample_disk False sample_assistant) (kUpdateSucceeded, sample_disk)"
proof -
  let ?env = "sample_env\<lparr>GetCompilerOptions := [''--compiler-filter=speed'']\<rparr>"
  have h1: "safe sample_assistant" by (rule sample_safe)
  note h2 = sample_speed_target
  have h3: "returns (GetBestInfo ?env sample_disk sample_assistant) Oat"
    using returns_GetBestInfo [OF sample_safe, of ?env sample_disk]
    by (simp add: best_info_spec_def usable_def eval_defs sample_defs sample_disk_def)
  have h4: "returns (OatFileInfo_Status ?env sample_disk Oat sample_assistant) kOatUpToDate"
    using returns_Status [OF sample_safe, of ?env sample_disk Oat]
    by (simp add: eval_defs sample_defs sample_disk_def)
  have h5: "returns (OatFileInfo_CompilerFilterIsOkay ?env sample_disk Oat 3 False
              sample_assistant) True"
    using returns_CompilerFilterIsOkay [OF sample_safe, of ?env sample_disk Oat 3 False]
    by (simp add: filter_ok_spec_def eval_defs sample_defs sample_disk_def)
  show ?thesis
    using h1 h2 h3 h4 h5 MakeUpToDate_idempotent [OF h1 h2 h3 h4 h5] by simp
qed

section \<open>Cleanup after a failed regeneration\<close>

text \<open>
  C4 does not hold of the code. With no oat file and no vdex file in the cache, dex2oat
  succeeding and the close of the vdex file failing, \<open>GenerateOatFileNoChecks\<close> returns
  \<open>kUpdateFailed\<close> and unlinks the vdex file only: the oat file it created stays on the
  disk.
\<close>

theorem GenerateOatFileNoChecks_leaves_oat_file:
  "vdex_only_disk ''/c/b.dex'' = None \<and> vdex_only_disk ''/c/b.vdex'' = None
   \<and> GenerateOatFileNoChecks sample_env vdex_only_disk Oat 4 sample_assistant
       = Some ((kUpdateFailed, vdex_only_disk(''/c/b.dex'' \<mapsto> Regular 420 [])),
               sample_assistant)
   \<and> (vdex_only_disk(''/c/b.dex'' \<mapsto> Regular 420 [])) ''/c/b.dex'' \<noteq> None"
  by (simp add: GenerateOatFileNoChecks_def disk_defs sample_defs vdex_only_disk_def Let_def)

lemma unlink_None [simp]: "unlink p d p = None"
  by (simp add: unlink_def)

text \<open>
  What the code does guarantee after \<open>kUpdateFailed\<close>: the vdex file or the oat file is
  gone.
\<close>

lemma GenerateOatFileNoChecks_failed_cleanup:
  assumes "GenerateOatFileNoChecks env d r t a = Some ((kUpdateFailed, d'), a')"
  shows "d' (GetVdexFilename env (filename_m (info r a))) = None
         \<or> d' (filename_m (info r a)) = None"
  using assms
  by (auto simp: GenerateOatFileNoChecks_def Let_def
      split: if_splits sum.splits option.splits prod.splits bool.splits)

end
